theory Spec2Isabelle
  imports Complex_Main
begin

section \<open>Order processing core of the point-of-sale application\<close>

text \<open>
  The development embeds the cart arithmetic of \<^verbatim>\<open>src/pages/Sales.tsx\<close> and the
  completion and cancellation routines of the store service
  (\<^verbatim>\<open>completeSale\<close>, \<^verbatim>\<open>cancelSale\<close>).

  Conventions of the embedding:
  \<^item> a JavaScript \<^verbatim>\<open>number\<close> is a \<^typ>\<open>real\<close>. The arithmetic of the screen and of the
    stock is exact; the proration of \<^verbatim>\<open>completeSale\<close> rounds the result of every
    operation as a binary64 does (\<open>double\<close> below). \<^verbatim>\<open>NaN\<close>, infinities, overflow and
    subnormal numbers are not modelled;
  \<^item> the truthiness test of a number (\<^verbatim>\<open>x || y\<close>, \<^verbatim>\<open>!x\<close>, \<^verbatim>\<open>x && ...\<close>) is the
    test \<open>x \<noteq> 0\<close>;
  \<^item> \<^verbatim>\<open>reduce\<close> is \<^const>\<open>foldl\<close>, \<^verbatim>\<open>map\<close> and \<^verbatim>\<open>filter\<close> are their list namesakes;
  \<^item> React state is a record passed in and returned; a handler that ends with an early
    \<^verbatim>\<open>return\<close> after a toast returns the state as it was, together with the toast;
  \<^item> the store is a record of two tables keyed by row identifier; a request to the store
    is answered (network failure is not modelled), and reading a missing row gives no data;
  \<^item> record fields keep the names of \<^verbatim>\<open>src/types.ts\<close>; the identifier, code, name
    and unit fields, which several interfaces share, carry a prefix. Free-text fields that
    the modelled functions only carry along are left out.
\<close>

subsection \<open>Data model (\<^verbatim>\<open>src/types.ts\<close>)\<close>

datatype SaleStatus = PENDING | COMPLETED | CANCELLED | BUDGET

record Product =
  prod_id :: string
  prod_code :: string
  prod_name :: string
  price :: real
  stock :: real
  prod_unit :: string
  active :: bool

record SaleItem =
  productId :: string
  productCode :: string
  productName :: string
  quantity :: real
  unitPrice :: real
  originalPrice :: real
  total :: real
  unit :: string
  observation :: string

record PaymentDetails =
  cash :: real
  debit :: real
  credit :: real
  ticket :: real
  pix :: real
  transfer :: real
  boleto :: real
  cheque :: real
  creditStore :: real

record Sale =
  sale_id :: string
  sellerId :: string
  sellerName :: string
  cashierId :: "string option"
  cashierName :: "string option"
  items :: "SaleItem list"
  totalValue :: real
  status :: SaleStatus
  finishedAt :: "string option"
  discount :: real
  freight :: real
  otherCosts :: real
  payments :: "PaymentDetails option"
  installments :: nat

text \<open>The part of a \<^verbatim>\<open>Partial<Sale>\<close> that \<^verbatim>\<open>handleSubmitSale\<close> fills in.\<close>

record salePayload =
  pl_items :: "SaleItem list"
  pl_sellerId :: string
  pl_sellerName :: string
  pl_discount :: real
  pl_freight :: real
  pl_otherCosts :: real
  pl_payments :: PaymentDetails
  pl_installments :: nat
  pl_totalValue :: real
  pl_status :: SaleStatus

subsection \<open>Pricing (\<^verbatim>\<open>Sales.tsx\<close>, section CALCULATIONS)\<close>

text \<open>\<^verbatim>\<open>cart.reduce((acc, item) => acc + item.total, 0)\<close>\<close>

definition subTotal :: "SaleItem list \<Rightarrow> real" where
  "subTotal cart = foldl (\<lambda>acc item. acc + total item) 0 cart"

text \<open>\<^verbatim>\<open>Math.max(0, subTotal - posDiscount + posFreight + posOther)\<close>\<close>

definition totalGeneral :: "SaleItem list \<Rightarrow> real \<Rightarrow> real \<Rightarrow> real \<Rightarrow> real" where
  "totalGeneral cart posDiscount posFreight posOther =
     max 0 (subTotal cart - posDiscount + posFreight + posOther)"

text \<open>The order in which \<^verbatim>\<open>Object.values\<close> lists the tender buckets is the order of
  the object literal that initialises the \<^verbatim>\<open>payments\<close> state.\<close>

definition paymentValues :: "PaymentDetails \<Rightarrow> real list" where
  "paymentValues p =
     [cash p, debit p, credit p, pix p, boleto p, creditStore p, ticket p, transfer p, cheque p]"

definition totalPaid :: "PaymentDetails \<Rightarrow> real" where
  "totalPaid p = foldl (\<lambda>acc val. acc + val) 0 (paymentValues p)"

definition remaining :: "real \<Rightarrow> PaymentDetails \<Rightarrow> real" where
  "remaining totalGeneral' p = max 0 (totalGeneral' - totalPaid p)"


subsection \<open>Currency input (\<^verbatim>\<open>parseMoney\<close>)\<close>

text \<open>\<^verbatim>\<open>value.replace(/\D/g, "")\<close> keeps the characters \<^verbatim>\<open>0\<close> to \<^verbatim>\<open>9\<close>;
  \<^verbatim>\<open>parseInt(digits || "0") / 100\<close> reads them as a decimal numeral of cents.\<close>

definition isDigit :: "char \<Rightarrow> bool" where
  "isDigit c = (48 \<le> (of_char c :: nat) \<and> (of_char c :: nat) \<le> 57)"

definition parseInt :: "string \<Rightarrow> nat" where
  "parseInt digits = foldl (\<lambda>acc c. 10 * acc + (of_char c - 48)) 0 digits"

definition parseMoney :: "string \<Rightarrow> real" where
  "parseMoney value' =
     (let digits = filter isDigit value'
      in real (parseInt (if digits = [] then ''0'' else digits)) / 100)"

subsection \<open>Point-of-sale state (\<^verbatim>\<open>Sales.tsx\<close>, the \<^verbatim>\<open>useState\<close> cells)\<close>

text \<open>\<^verbatim>\<open>editItemData\<close> is a \<^verbatim>\<open>Partial<SaleItem>\<close>: it is \<^verbatim>\<open>{}\<close> at first
  (\<open>None\<close>) and a copy of a whole cart line once \<^verbatim>\<open>openEditModal\<close> has run, the
  modal replacing single fields of that copy.\<close>

record pos_state =
  products :: "Product list"
  editingSaleId :: "string option"
  isCashierConfirming :: bool
  cart :: "SaleItem list"
  selectedProduct :: "Product option"
  itemQty :: real
  itemPrice :: real
  posDiscount :: real
  posFreight :: real
  posOther :: real
  pos_payments :: PaymentDetails
  creditInstallments :: nat
  editModalOpen :: bool
  editItemIndex :: "nat option"
  editItemData :: "SaleItem option"
  discountModalOpen :: bool
  tempDiscountValue :: real
  tempDiscountPercent :: real
  discountToken :: string

text \<open>The toasts a handler can raise. \<open>PolicyError\<close> carries the percentage the message
  names (printed with two decimals), \<open>PaymentMismatch\<close> the difference it reports.\<close>

datatype diffMsg = Falta real | Sobra real

datatype notice =
    SelectValidProduct
  | InsufficientStockAtAdd real
  | RevertedToOriginal
  | AdjustedToLimit
  | PolicyError real
  | EmptyCart
  | NoPaymentMethod
  | PaymentMismatch diffMsg

definition noPayments :: PaymentDetails where
  "noPayments = \<lparr>cash = 0, debit = 0, credit = 0, ticket = 0, pix = 0, transfer = 0,
     boleto = 0, cheque = 0, creditStore = 0\<rparr>"

text \<open>The initial values of the state cells.\<close>

definition initialState :: pos_state where
  "initialState = \<lparr>products = [], editingSaleId = None, isCashierConfirming = False,
     cart = [], selectedProduct = None, itemQty = 1, itemPrice = 0, posDiscount = 0,
     posFreight = 0, posOther = 0, pos_payments = noPayments, creditInstallments = 1,
     editModalOpen = False, editItemIndex = None, editItemData = None,
     discountModalOpen = False, tempDiscountValue = 0, tempDiscountPercent = 0,
     discountToken = []\<rparr>"

subsection \<open>Adding a line (\<^verbatim>\<open>handleAddItem\<close>)\<close>

definition handleAddItem :: "pos_state \<Rightarrow> pos_state \<times> notice list" where
  "handleAddItem st =
     (if isCashierConfirming st then (st, [])
      else case selectedProduct st of
        None \<Rightarrow> (st, [SelectValidProduct])
      | Some p \<Rightarrow>
          let currentInCart =
                foldl (\<lambda>acc i. acc + quantity i) 0
                  (filter (\<lambda>i. productId i = prod_id p) (cart st))
          in if stock p < currentInCart + itemQty st
             then (st, [InsufficientStockAtAdd (stock p)])
             else
               let newItem = \<lparr>productId = prod_id p, productCode = prod_code p,
                     productName = prod_name p, quantity = itemQty st,
                     unitPrice = itemPrice st, originalPrice = price p,
                     total = itemPrice st * itemQty st,
                     unit = (if prod_unit p = [] then ''UNID'' else prod_unit p),
                     observation = []\<rparr>
               in (st\<lparr>cart := cart st @ [newItem], selectedProduct := None,
                        itemQty := 1, itemPrice := 0\<rparr>, []))"

subsection \<open>Editing a line (\<^verbatim>\<open>openEditModal\<close>, \<^verbatim>\<open>saveEditItem\<close>)\<close>

definition openEditModal :: "pos_state \<Rightarrow> nat \<Rightarrow> pos_state" where
  "openEditModal st idx =
     st\<lparr>editItemIndex := Some idx,
        editItemData := (if idx < length (cart st) then Some (cart st ! idx) else None),
        editModalOpen := True\<rparr>"

text \<open>\<^verbatim>\<open>updatedCart[editItemIndex] = newItem\<close>: inside the array the element is
  replaced, at its end the array grows by one, and past its end JavaScript leaves holes,
  which a list does not represent (\<open>None\<close>).\<close>

definition arrayAssign :: "'a list \<Rightarrow> nat \<Rightarrow> 'a \<Rightarrow> 'a list option" where
  "arrayAssign xs i v =
     (if i < length xs then Some (xs[i := v])
      else if i = length xs then Some (xs @ [v])
      else None)"

text \<open>The price that \<^verbatim>\<open>saveEditItem\<close> settles on, with the notices of its two rules:
  \<^verbatim>\<open>original = originalPrice || unitPrice || 0\<close>, rule 1 (empty or zero reverts to the
  original) and rule 2 (not below 94% of the original).\<close>

definition editOriginal :: "SaleItem \<Rightarrow> real" where
  "editOriginal d =
     (if originalPrice d \<noteq> 0 then originalPrice d
      else if unitPrice d \<noteq> 0 then unitPrice d else 0)"

definition editFinalPrice :: "SaleItem \<Rightarrow> real \<times> notice list" where
  "editFinalPrice d =
     (let original = editOriginal d;
          (finalPrice, n1) =
             (if unitPrice d = 0 then (original, [RevertedToOriginal])
              else (unitPrice d, []));
          minAllowedPrice = original * 0.94
      in if finalPrice < minAllowedPrice
         then (minAllowedPrice, n1 @ [AdjustedToLimit])
         else (finalPrice, n1))"

definition saveEditItem :: "pos_state \<Rightarrow> (pos_state \<times> notice list) option" where
  "saveEditItem st =
     (case (editItemIndex st, editItemData st) of
        (Some idx, Some d) \<Rightarrow>
          if quantity d \<noteq> 0 then
            let (finalPrice, ns) = editFinalPrice d;
                newItem = d\<lparr>unitPrice := finalPrice, total := quantity d * finalPrice\<rparr>
            in map_option (\<lambda>updatedCart. (st\<lparr>cart := updatedCart, editModalOpen := False\<rparr>, ns))
                 (arrayAssign (cart st) idx newItem)
          else Some (st, [])
      | _ \<Rightarrow> Some (st, []))"

subsection \<open>Order-level discount (the discount modal)\<close>

text \<open>The four discount handlers repeat the same three lines:
  \<^verbatim>\<open>cart.reduce((acc, item) => acc + (item.quantity * (item.originalPrice || item.unitPrice)), 0)\<close>,
  \<^verbatim>\<open>discountFromItems = totalOriginalValue - currentSubTotal\<close> and the percentage
  \<^verbatim>\<open>totalOriginalValue > 0 ? (totalDiscount / totalOriginalValue) * 100 : 0\<close>.\<close>

definition totalOriginalValue :: "SaleItem list \<Rightarrow> real" where
  "totalOriginalValue cart' =
     foldl (\<lambda>acc item. acc + quantity item *
              (if originalPrice item \<noteq> 0 then originalPrice item else unitPrice item))
       0 cart'"

definition discountFromItems :: "SaleItem list \<Rightarrow> real" where
  "discountFromItems cart' = totalOriginalValue cart' - subTotal cart'"

definition effectivePercent :: "SaleItem list \<Rightarrow> real \<Rightarrow> real" where
  "effectivePercent cart' globalDiscount =
     (let totalDiscount = discountFromItems cart' + globalDiscount
      in if totalOriginalValue cart' > 0
         then totalDiscount / totalOriginalValue cart' * 100 else 0)"

definition openDiscountModal :: "pos_state \<Rightarrow> pos_state" where
  "openDiscountModal st =
     (if isCashierConfirming st then st
      else st\<lparr>tempDiscountValue := posDiscount st,
              tempDiscountPercent := effectivePercent (cart st) (posDiscount st),
              discountToken := [], discountModalOpen := True\<rparr>)"

definition handleDiscountValueChange :: "pos_state \<Rightarrow> real \<Rightarrow> pos_state" where
  "handleDiscountValueChange st val =
     st\<lparr>tempDiscountValue := val,
        tempDiscountPercent := effectivePercent (cart st) val\<rparr>"

definition handleDiscountPercentChange :: "pos_state \<Rightarrow> real \<Rightarrow> pos_state" where
  "handleDiscountPercentChange st pct =
     (let targetTotalDiscount = totalOriginalValue (cart st) * pct / 100;
          neededGlobalDiscount = max 0 (targetTotalDiscount - discountFromItems (cart st))
      in st\<lparr>tempDiscountPercent := pct, tempDiscountValue := neededGlobalDiscount\<rparr>)"

definition handleDiscountTotalChange :: "pos_state \<Rightarrow> real \<Rightarrow> pos_state" where
  "handleDiscountTotalChange st totalComDesconto =
     (let newGlobalDiscount = max 0 (subTotal (cart st) - totalComDesconto)
      in st\<lparr>tempDiscountValue := newGlobalDiscount,
              tempDiscountPercent := effectivePercent (cart st) newGlobalDiscount\<rparr>)"

text \<open>The three fields the modal shows: the amount, the percentage, and the total to pay,
  which is rendered as \<^verbatim>\<open>subTotal - tempDiscountValue\<close>.\<close>

definition discountViews :: "pos_state \<Rightarrow> real \<times> real \<times> real" where
  "discountViews st =
     (tempDiscountValue st, tempDiscountPercent st, subTotal (cart st) - tempDiscountValue st)"


subsection \<open>Submission (\<^verbatim>\<open>handleSubmitSale\<close>)\<close>

text \<open>The handler up to the request it sends to the store: either the toast of a failed
  validation, or the payload with the operation that persists it.\<close>

datatype store_request = CreateSale salePayload | UpdateSale string salePayload

definition handleSubmitSale ::
  "pos_state \<Rightarrow> string \<Rightarrow> string \<Rightarrow> bool \<Rightarrow> notice + store_request" where
  "handleSubmitSale st userId userName asBudget =
     (let totalGeneral' = totalGeneral (cart st) (posDiscount st) (posFreight st) (posOther st);
          currentTotalPaid = totalPaid (pos_payments st);
          salePayload' = \<lparr>pl_items = cart st, pl_sellerId = userId, pl_sellerName = userName,
             pl_discount = posDiscount st, pl_freight = posFreight st,
             pl_otherCosts = posOther st, pl_payments = pos_payments st,
             pl_installments = creditInstallments st, pl_totalValue = totalGeneral',
             pl_status = (if asBudget then BUDGET else PENDING)\<rparr>;
          request = (case editingSaleId st of
             Some sid \<Rightarrow> UpdateSale sid salePayload'
           | None \<Rightarrow> CreateSale salePayload')
      in if length (cart st) = 0 then Inl EmptyCart
         else if \<not> asBudget then
           (if totalGeneral' > 0 then
              (if currentTotalPaid = 0 then Inl NoPaymentMethod
               else if \<bar>currentTotalPaid - totalGeneral'\<bar> > 0.05 then
                 (let diff = totalGeneral' - currentTotalPaid
                  in Inl (PaymentMismatch (if diff > 0 then Falta diff else Sobra \<bar>diff\<bar>)))
               else Inr request)
            else Inr request)
         else Inr request)"

subsection \<open>The store: completion and cancellation\<close>

record database =
  sales_table :: "string \<rightharpoonup> Sale"
  products_table :: "string \<rightharpoonup> Product"

datatype backend_error = SaleNotFound | AlreadyCompleted | InsufficientStock

text \<open>The rounding of a binary64 (round to nearest, ties to even). A number \<open>x\<close> with
  \<open>2\<^sup>e \<le> |x| < 2\<^sup>e\<^sup>+\<^sup>1\<close> is rounded to the nearest multiple of \<open>2\<^sup>e\<^sup>-\<^sup>5\<^sup>2\<close>, and to the even
  one of the two when it lies half way. \<open>magnitudeUp\<close> and \<open>magnitudeDown\<close> find \<open>e\<close>
  by halving and by doubling.\<close>

function magnitudeUp :: "real \<Rightarrow> int" where
  "magnitudeUp x = (if x < 2 then 0 else 1 + magnitudeUp (x / 2))"
  by pat_completeness auto
termination
proof (relation "measure (\<lambda>x. nat \<lfloor>x\<rfloor>)")
  show "wf (measure (\<lambda>x::real. nat \<lfloor>x\<rfloor>))" by simp
next
  fix x :: real
  assume large: "\<not> x < 2"
  then have "x / 2 \<le> x - 1" by simp
  then have "\<lfloor>x / 2\<rfloor> \<le> \<lfloor>x - 1\<rfloor>" by (rule floor_mono)
  moreover have "2 \<le> \<lfloor>x\<rfloor>" using large by (simp add: le_floor_iff)
  ultimately show "(x / 2, x) \<in> measure (\<lambda>x. nat \<lfloor>x\<rfloor>)" by simp
qed

function magnitudeDown :: "real \<Rightarrow> int" where
  "magnitudeDown x = (if x \<le> 0 \<or> 1 \<le> x then 0 else magnitudeDown (2 * x) - 1)"
  by pat_completeness auto
termination
proof (relation "measure (\<lambda>x. nat \<lfloor>1 / x\<rfloor>)")
  show "wf (measure (\<lambda>x::real. nat \<lfloor>1 / x\<rfloor>))" by simp
next
  fix x :: real
  assume "\<not> (x \<le> 0 \<or> 1 \<le> x)"
  then have x: "0 < x" "x < 1" by simp_all
  then have y: "1 < 1 / x" by simp
  have "\<lfloor>1 / (2 * x)\<rfloor> < \<lfloor>1 / x\<rfloor>"
  proof (cases "1 / x < 2")
    case True
    then have "1 / (2 * x) < 1" using x by (simp add: field_simps)
    moreover have "0 \<le> 1 / (2 * x)" using x by simp
    ultimately have "\<lfloor>1 / (2 * x)\<rfloor> = 0" by (simp add: floor_eq_iff)
    moreover have "1 \<le> \<lfloor>1 / x\<rfloor>" using y by (simp add: le_floor_iff)
    ultimately show ?thesis by simp
  next
    case False
    then have "1 / (2 * x) \<le> 1 / x - 1" using x by (simp add: field_simps)
    then have "\<lfloor>1 / (2 * x)\<rfloor> \<le> \<lfloor>1 / x - 1\<rfloor>" by (rule floor_mono)
    then show ?thesis by simp
  qed
  moreover have "0 < \<lfloor>1 / x\<rfloor>" using y by (simp add: less_floor_iff)
  ultimately show "(2 * x, x) \<in> measure (\<lambda>x. nat \<lfloor>1 / x\<rfloor>)" by simp
qed

declare magnitudeUp.simps [simp del] magnitudeDown.simps [simp del]

definition binaryExponent :: "real \<Rightarrow> int" where
  "binaryExponent x = (if 1 \<le> x then magnitudeUp x else magnitudeDown x)"

definition ulp :: "real \<Rightarrow> real" where
  "ulp x = (let e = binaryExponent \<bar>x\<bar> - 52
            in if 0 \<le> e then 2 ^ nat e else 1 / 2 ^ nat (- e))"

definition roundHalfEven :: "real \<Rightarrow> int" where
  "roundHalfEven x =
     (let n = \<lfloor>x\<rfloor>; r = x - of_int n
      in if r < 1 / 2 then n
         else if 1 / 2 < r then n + 1
         else if even n then n else n + 1)"

definition double :: "real \<Rightarrow> real" where
  "double x =
     (if x = 0 then 0 else sgn x * (of_int (roundHalfEven (\<bar>x\<bar> / ulp x)) * ulp x))"

text \<open>The block of \<^verbatim>\<open>completeSale\<close> that spreads the order-level discount over the
  lines: the local variables \<^verbatim>\<open>subTotal\<close>, \<^verbatim>\<open>finalItems\<close> and \<^verbatim>\<open>finalDiscount\<close>, every
  sum, difference, quotient and product rounded.\<close>

definition saleSubTotal :: "Sale \<Rightarrow> real" where
  "saleSubTotal sale = foldl (\<lambda>acc item. double (acc + total item)) 0 (items sale)"

definition finalItems :: "Sale \<Rightarrow> SaleItem list" where
  "finalItems sale =
     (if discount sale \<noteq> 0 \<and> discount sale > 0 then
        (let subTotal' = saleSubTotal sale
         in if subTotal' > 0 then
              (let factor = double (double (subTotal' - discount sale) / subTotal')
               in map (\<lambda>item.
                    let netUnitPrice = double (unitPrice item * factor)
                    in item\<lparr>unitPrice := netUnitPrice,
                            total := double (netUnitPrice * quantity item)\<rparr>)
                  (items sale))
            else items sale)
      else items sale)"

definition finalDiscount :: "Sale \<Rightarrow> real" where
  "finalDiscount sale =
     (if discount sale \<noteq> 0 \<and> discount sale > 0 then
        (let subTotal' = saleSubTotal sale
         in if subTotal' > 0 then 0 else discount sale)
      else discount sale)"

text \<open>The stock loop of \<^verbatim>\<open>completeSale\<close>. Each line reads the product's stock and
  writes it back decremented; a line whose product is not found is passed over; the
  \<^verbatim>\<open>throw\<close> of a line leaves the writes of the lines before it in the table.
  The function returns the store together with its result, so that these writes show.
  The completion time \<^verbatim>\<open>new Date().toISOString()\<close> is the argument \<open>now\<close>.\<close>

fun updateStock ::
  "(string \<rightharpoonup> Product) \<Rightarrow> SaleItem list \<Rightarrow> (string \<rightharpoonup> Product) \<times> backend_error option" where
  "updateStock ps [] = (ps, None)"
| "updateStock ps (item # rest) =
     (case ps (productId item) of
        None \<Rightarrow> updateStock ps rest
      | Some pr \<Rightarrow>
          if stock pr < quantity item then (ps, Some InsufficientStock)
          else updateStock
                 (ps(productId item \<mapsto> pr\<lparr>stock := stock pr - quantity item\<rparr>)) rest)"

definition completeSale ::
  "database \<Rightarrow> string \<Rightarrow> string \<Rightarrow> string \<Rightarrow> string \<Rightarrow> database \<times> (backend_error + Sale)" where
  "completeSale db saleId cashierId' cashierName' now =
     (case sales_table db saleId of
        None \<Rightarrow> (db, Inl SaleNotFound)
      | Some sale \<Rightarrow>
          if status sale = COMPLETED then (db, Inl AlreadyCompleted)
          else
            (case updateStock (products_table db) (finalItems sale) of
               (ps, Some e) \<Rightarrow> (db\<lparr>products_table := ps\<rparr>, Inl e)
             | (ps, None) \<Rightarrow>
                 let updatedSale = sale\<lparr>status := COMPLETED, cashierId := Some cashierId',
                       cashierName := Some cashierName', finishedAt := Some now,
                       items := finalItems sale, discount := finalDiscount sale\<rparr>
                 in (db\<lparr>products_table := ps,
                        sales_table := (sales_table db)(saleId \<mapsto> updatedSale)\<rparr>,
                     Inr updatedSale)))"

text \<open>The stock loop of \<^verbatim>\<open>cancelSale\<close>.\<close>

fun restoreStock :: "(string \<rightharpoonup> Product) \<Rightarrow> SaleItem list \<Rightarrow> (string \<rightharpoonup> Product)" where
  "restoreStock ps [] = ps"
| "restoreStock ps (item # rest) =
     (case ps (productId item) of
        None \<Rightarrow> restoreStock ps rest
      | Some pr \<Rightarrow>
          restoreStock
            (ps(productId item \<mapsto> pr\<lparr>stock := stock pr + quantity item\<rparr>)) rest)"

definition cancelSale :: "database \<Rightarrow> string \<Rightarrow> database \<times> (backend_error + Sale)" where
  "cancelSale db saleId =
     (case sales_table db saleId of
        None \<Rightarrow> (db, Inl SaleNotFound)
      | Some sale \<Rightarrow>
          let ps = (if status sale = COMPLETED
                    then restoreStock (products_table db) (items sale)
                    else products_table db);
              data = sale\<lparr>status := CANCELLED\<rparr>
          in (db\<lparr>products_table := ps, sales_table := (sales_table db)(saleId \<mapsto> data)\<rparr>,
              Inr data))"

subsection \<open>Auxiliary notions of the statements\<close>

text \<open>The quantity an order holds of one product, summed over its lines.\<close>

definition lineQuantity :: "string \<Rightarrow> SaleItem list \<Rightarrow> real" where
  "lineQuantity p lines = sum_list (map quantity (filter (\<lambda>i. productId i = p) lines))"

text \<open>No product of the table has a negative stock.\<close>

definition stockNonNegative :: "(string \<rightharpoonup> Product) \<Rightarrow> bool" where
  "stockNonNegative ps = (\<forall>p pr. ps p = Some pr \<longrightarrow> 0 \<le> stock pr)"


text \<open>The three views agree when feeding each of them back through its own handler gives
  the same three values again.\<close>

definition viewsConsistent :: "pos_state \<Rightarrow> bool" where
  "viewsConsistent st =
     (discountViews (handleDiscountValueChange st (tempDiscountValue st)) = discountViews st
      \<and> discountViews (handleDiscountPercentChange st (tempDiscountPercent st)) = discountViews st
      \<and> discountViews (handleDiscountTotalChange st (subTotal (cart st) - tempDiscountValue st))
          = discountViews st)"

subsection \<open>Example data\<close>

text \<open>The scenario of one line of three units at 10.00 with an order-level discount of
  3.00, on a product with five units in stock.\<close>

definition exampleProduct :: Product where
  "exampleProduct = \<lparr>prod_id = ''p1'', prod_code = ''001'', prod_name = ''Caneta'',
     price = 10, stock = 5, prod_unit = ''UNID'', active = True\<rparr>"

definition exampleLine :: SaleItem where
  "exampleLine = \<lparr>productId = ''p1'', productCode = ''001'', productName = ''Caneta'',
     quantity = 3, unitPrice = 10, originalPrice = 10, total = 30, unit = ''UNID'',
     observation = []\<rparr>"

definition exampleSale :: "SaleStatus \<Rightarrow> Sale" where
  "exampleSale st = \<lparr>sale_id = ''s1'', sellerId = ''u1'', sellerName = ''Ana'',
     cashierId = None, cashierName = None, items = [exampleLine], totalValue = 27,
     status = st, finishedAt = None, discount = 3, freight = 0, otherCosts = 0,
     payments = None, installments = 1\<rparr>"

definition exampleStore :: "SaleStatus \<Rightarrow> database" where
  "exampleStore st = \<lparr>sales_table = [''s1'' \<mapsto> exampleSale st],
     products_table = [''p1'' \<mapsto> exampleProduct]\<rparr>"

definition exampleCompletedSale :: "SaleStatus \<Rightarrow> Sale" where
  "exampleCompletedSale st = (exampleSale st)\<lparr>status := COMPLETED, cashierId := Some ''u2'',
     cashierName := Some ''Bia'', finishedAt := Some ''2024-05-01T12:00:00.000Z'',
     items := [exampleLine\<lparr>unitPrice := 9, total := 27\<rparr>], discount := 0\<rparr>"

definition exampleCompletedStore :: "SaleStatus \<Rightarrow> database" where
  "exampleCompletedStore st = \<lparr>sales_table = [''s1'' \<mapsto> exampleCompletedSale st],
     products_table = [''p1'' \<mapsto> exampleProduct\<lparr>stock := 2\<rparr>]\<rparr>"

text \<open>A line whose product is not in the catalogue, and the state in which three units of
  the example product are about to be added to an empty cart.\<close>

definition exampleOrphanLine :: SaleItem where
  "exampleOrphanLine = exampleLine\<lparr>productId := ''p9''\<rparr>"

definition exampleOrphanSale :: "SaleStatus \<Rightarrow> Sale" where
  "exampleOrphanSale st = (exampleSale st)\<lparr>items := [exampleOrphanLine, exampleLine],
     discount := 0\<rparr>"

definition exampleOrphanStore :: "SaleStatus \<Rightarrow> database" where
  "exampleOrphanStore st = \<lparr>sales_table = [''s1'' \<mapsto> exampleOrphanSale st],
     products_table = [''p1'' \<mapsto> exampleProduct]\<rparr>"

definition exampleAddState :: pos_state where
  "exampleAddState = initialState\<lparr>products := [exampleProduct],
     selectedProduct := Some exampleProduct, itemQty := 3, itemPrice := 10\<rparr>"



definition exampleDiscountedLine :: SaleItem where
  "exampleDiscountedLine = \<lparr>productId = ''p3'', productCode = ''003'', productName = ''Mochila'',
     quantity = 1, unitPrice = 94, originalPrice = 100, total = 94, unit = ''UNID'',
     observation = []\<rparr>"





definition exampleEditState :: "real \<Rightarrow> pos_state" where
  "exampleEditState entered =
     (openEditModal (initialState\<lparr>cart := [exampleLine]\<rparr>) 0)
       \<lparr>editItemData := Some (exampleLine\<lparr>unitPrice := entered\<rparr>)\<rparr>"

definition exampleModalState :: pos_state where
  "exampleModalState = openDiscountModal (initialState\<lparr>cart := [exampleDiscountedLine]\<rparr>)"

definition exampleOpenModalState :: pos_state where
  "exampleOpenModalState = openDiscountModal (initialState\<lparr>cart := [exampleLine]\<rparr>)"

text \<open>One unit of a product at 25.00 with an order-level discount of 11.00, and two
  units of a product at 16.00 with a discount of 8.00.\<close>

definition exampleRoundingSale :: Sale where
  "exampleRoundingSale = (exampleSale PENDING)\<lparr>
     items := [exampleLine\<lparr>quantity := 1, unitPrice := 25, originalPrice := 25, total := 25\<rparr>],
     discount := 11, totalValue := 14\<rparr>"

definition exampleRoundingStore :: database where
  "exampleRoundingStore = \<lparr>sales_table = [''s1'' \<mapsto> exampleRoundingSale],
     products_table = [''p1'' \<mapsto> exampleProduct\<lparr>price := 25\<rparr>]\<rparr>"

definition exampleExactSale :: Sale where
  "exampleExactSale = (exampleSale PENDING)\<lparr>
     items := [exampleLine\<lparr>quantity := 2, unitPrice := 16, originalPrice := 16, total := 32\<rparr>],
     discount := 8, totalValue := 24\<rparr>"

definition exampleExactStore :: database where
  "exampleExactStore = \<lparr>sales_table = [''s1'' \<mapsto> exampleExactSale],
     products_table = [''p1'' \<mapsto> exampleProduct\<lparr>price := 16\<rparr>]\<rparr>"

text \<open>A line edited to the quantity -5: the edit modal with that quantity typed in, the
  screen after the edit is saved, and a store where the order of that line and two orders
  of three units each wait for the cashier, the product having five units in stock. The
  four stores after it are reached by completing the three orders in turn and then
  cancelling the first.\<close>

definition exampleReturnLine :: SaleItem where
  "exampleReturnLine = exampleLine\<lparr>quantity := - 5, total := - 50\<rparr>"

definition exampleReturnEditState :: pos_state where
  "exampleReturnEditState =
     (openEditModal (initialState\<lparr>cart := [exampleLine]\<rparr>) 0)
       \<lparr>editItemData := Some (exampleLine\<lparr>quantity := - 5\<rparr>)\<rparr>"

definition exampleReturnCartState :: pos_state where
  "exampleReturnCartState = exampleReturnEditState\<lparr>cart := [exampleReturnLine],
     editModalOpen := False\<rparr>"

definition exampleReturnSale :: "SaleStatus \<Rightarrow> Sale" where
  "exampleReturnSale st = (exampleSale st)\<lparr>items := [exampleReturnLine], discount := 0,
     totalValue := 0\<rparr>"

definition exampleUnitsSale :: "string \<Rightarrow> SaleStatus \<Rightarrow> Sale" where
  "exampleUnitsSale saleId st = (exampleSale st)\<lparr>sale_id := saleId, discount := 0,
     totalValue := 30\<rparr>"

definition exampleReturnStore :: database where
  "exampleReturnStore =
     \<lparr>sales_table =
        [''s1'' \<mapsto> exampleReturnSale PENDING,
         ''s2'' \<mapsto> exampleUnitsSale ''s2'' PENDING,
         ''s3'' \<mapsto> exampleUnitsSale ''s3'' PENDING],
      products_table = [''p1'' \<mapsto> exampleProduct]\<rparr>"

definition exampleReturnStore1 :: database where
  "exampleReturnStore1 =
     fst (completeSale exampleReturnStore ''s1'' ''u2'' ''Bia'' ''2024-05-01T12:00:00.000Z'')"

definition exampleReturnStore2 :: database where
  "exampleReturnStore2 =
     fst (completeSale exampleReturnStore1 ''s2'' ''u2'' ''Bia'' ''2024-05-01T12:30:00.000Z'')"

definition exampleReturnStore3 :: database where
  "exampleReturnStore3 =
     fst (completeSale exampleReturnStore2 ''s3'' ''u2'' ''Bia'' ''2024-05-01T13:00:00.000Z'')"

definition exampleReturnStore4 :: database where
  "exampleReturnStore4 = fst (cancelSale exampleReturnStore3 ''s1'')"

text \<open>No step of the proration of an order rounds, and no total of its lines was rounded
  when the line was written: the sum of the totals, the difference, the factor and the
  two products of every line are binary64 numbers as they stand.\<close>

definition prorationExact :: "Sale \<Rightarrow> bool" where
  "prorationExact sale =
     (let s = (\<Sum>line\<leftarrow>items sale. total line);
          f = (s - discount sale) / s
      in saleSubTotal sale = s
         \<and> double (s - discount sale) = s - discount sale
         \<and> double f = f
         \<and> (\<forall>line\<in>set (items sale).
               total line = unitPrice line * quantity line
             \<and> double (unitPrice line * f) = unitPrice line * f
             \<and> double (unitPrice line * f * quantity line) = unitPrice line * f * quantity line))"

section \<open>Properties\<close>

subsection \<open>Sums computed by \<^verbatim>\<open>reduce\<close>\<close>

lemma foldl_add_sum_list:
  fixes f :: "'a \<Rightarrow> real"
  shows "foldl (\<lambda>acc x. acc + f x) a xs = a + sum_list (map f xs)"
  by (induction xs arbitrary: a) (simp_all add: add.assoc)

lemma subTotal_sum_list: "subTotal lines = sum_list (map total lines)"
  by (simp add: subTotal_def foldl_add_sum_list)

lemma sum_list_scaled:
  fixes f :: real
  shows "(\<Sum>line\<leftarrow>lines. unitPrice line * f * quantity line) =
         f * (\<Sum>line\<leftarrow>lines. unitPrice line * quantity line)"
  by (induction lines) (simp_all add: algebra_simps)

lemma lineQuantity_Cons:
  "lineQuantity p (item # rest) =
     (if productId item = p then quantity item else 0) + lineQuantity p rest"
  by (simp add: lineQuantity_def)

subsection \<open>The stock loops\<close>

lemma stockNonNegative_upd:
  "stockNonNegative ps \<Longrightarrow> 0 \<le> stock pr \<Longrightarrow> stockNonNegative (ps(k \<mapsto> pr))"
  by (simp add: stockNonNegative_def)

lemma updateStock_nonneg:
  "stockNonNegative ps \<Longrightarrow> stockNonNegative (fst (updateStock ps lines))"
proof (induction lines arbitrary: ps)
  case Nil
  then show ?case by simp
next
  case (Cons item rest)
  show ?case
  proof (cases "ps (productId item)")
    case None
    then have "updateStock ps (item # rest) = updateStock ps rest" by simp
    with Cons.IH[OF Cons.prems] show ?thesis by simp
  next
    case (Some pr)
    show ?thesis
    proof (cases "stock pr < quantity item")
      case True
      with Some have "updateStock ps (item # rest) = (ps, Some InsufficientStock)" by simp
      with Cons.prems show ?thesis by simp
    next
      case False
      let ?ps = "ps(productId item \<mapsto> pr\<lparr>stock := stock pr - quantity item\<rparr>)"
      have "0 \<le> stock (pr\<lparr>stock := stock pr - quantity item\<rparr>)" using False by simp
      with Cons.prems have "stockNonNegative ?ps" by (rule stockNonNegative_upd)
      then have "stockNonNegative (fst (updateStock ?ps rest))" by (rule Cons.IH)
      moreover have "updateStock ps (item # rest) = updateStock ?ps rest"
        using Some False by simp
      ultimately show ?thesis by simp
    qed
  qed
qed

lemma restoreStock_lookup:
  "restoreStock ps lines p =
     map_option (\<lambda>pr. pr\<lparr>stock := stock pr + lineQuantity p lines\<rparr>) (ps p)"
proof (induction lines arbitrary: ps)
  case Nil
  show ?case by (cases "ps p") (simp_all add: lineQuantity_def)
next
  case (Cons item rest)
  show ?case
  proof (cases "ps (productId item)")
    case None
    then show ?thesis
      by (cases "ps p") (auto simp: Cons.IH lineQuantity_Cons)
  next
    case (Some pr)
    then show ?thesis
      by (cases "ps p") (auto simp: Cons.IH lineQuantity_Cons add.assoc)
  qed
qed

lemma updateStock_lookup:
  "updateStock ps lines = (ps', None) \<Longrightarrow>
   ps' p = map_option (\<lambda>pr. pr\<lparr>stock := stock pr - lineQuantity p lines\<rparr>) (ps p)"
proof (induction lines arbitrary: ps)
  case Nil
  then show ?case by (cases "ps p") (auto simp: lineQuantity_def)
next
  case (Cons item rest)
  show ?case
  proof (cases "ps (productId item)")
    case None
    with Cons.prems have "updateStock ps rest = (ps', None)" by simp
    from Cons.IH[OF this] None show ?thesis
      by (cases "ps p") (auto simp: lineQuantity_Cons)
  next
    case (Some pr)
    show ?thesis
    proof (cases "stock pr < quantity item")
      case True
      with Some Cons.prems show ?thesis by simp
    next
      case False
      with Some Cons.prems have "updateStock (ps(productId item \<mapsto> pr\<lparr>stock := stock pr - quantity item\<rparr>)) rest = (ps', None)"
        by simp
      from Cons.IH[OF this] Some show ?thesis
        by (cases "ps p") (auto simp: lineQuantity_Cons algebra_simps)
    qed
  qed
qed

lemma restore_after_update:
  assumes "updateStock ps lines = (ps', None)"
  shows "restoreStock ps' lines = ps"
proof
  fix p
  show "restoreStock ps' lines p = ps p"
    unfolding restoreStock_lookup updateStock_lookup[OF assms]
    by (cases "ps p") simp_all
qed


lemma updateStock_error: "snd (updateStock ps lines) = Some e \<Longrightarrow> e = InsufficientStock"
  by (induction lines arbitrary: ps) (auto split: option.splits if_splits)

subsection \<open>Completion and cancellation of a sale that is found\<close>

lemma completeSale_found:
  assumes "sales_table db saleId = Some sale"
  shows "completeSale db saleId c n t =
     (if status sale = COMPLETED then (db, Inl AlreadyCompleted)
      else case updateStock (products_table db) (finalItems sale) of
             (ps, Some e) \<Rightarrow> (db\<lparr>products_table := ps\<rparr>, Inl e)
           | (ps, None) \<Rightarrow>
               (db\<lparr>products_table := ps,
                   sales_table := (sales_table db)(saleId \<mapsto>
                     sale\<lparr>status := COMPLETED, cashierId := Some c, cashierName := Some n,
                       finishedAt := Some t, items := finalItems sale,
                       discount := finalDiscount sale\<rparr>)\<rparr>,
                Inr (sale\<lparr>status := COMPLETED, cashierId := Some c, cashierName := Some n,
                       finishedAt := Some t, items := finalItems sale,
                       discount := finalDiscount sale\<rparr>)))"
  using assms by (simp add: completeSale_def Let_def split: prod.splits option.splits)

lemma cancelSale_found:
  assumes "sales_table db saleId = Some sale"
  shows "cancelSale db saleId =
     (db\<lparr>products_table :=
           (if status sale = COMPLETED then restoreStock (products_table db) (items sale)
            else products_table db),
         sales_table := (sales_table db)(saleId \<mapsto> sale\<lparr>status := CANCELLED\<rparr>)\<rparr>,
      Inr (sale\<lparr>status := CANCELLED\<rparr>))"
  using assms by (simp add: cancelSale_def Let_def)

lemma completeSale_success:
  assumes "sales_table db saleId = Some sale"
      and "completeSale db saleId c n t = (db', Inr sale')"
  shows "status sale \<noteq> COMPLETED"
    and "updateStock (products_table db) (finalItems sale) = (products_table db', None)"
    and "sale' = sale\<lparr>status := COMPLETED, cashierId := Some c, cashierName := Some n,
                       finishedAt := Some t, items := finalItems sale,
                       discount := finalDiscount sale\<rparr>"
    and "sales_table db' = (sales_table db)(saleId \<mapsto> sale')"
  using assms(2) unfolding completeSale_found[OF assms(1)]
  by (auto split: if_splits prod.splits option.splits)

lemmas double_eval = double_def ulp_def binaryExponent_def roundHalfEven_def
  magnitudeUp.simps magnitudeDown.simps

lemma double_values:
  "double 12 = 12" "double 24 = 24" "double 32 = 32" "double (3 / 4) = 3 / 4"
  by (simp_all add: double_eval)

lemmas example_defs = exampleStore_def exampleSale_def exampleLine_def exampleProduct_def
  exampleCompletedStore_def exampleCompletedSale_def

lemma example_completion:
  "completeSale (exampleStore st) ''s1'' ''u2'' ''Bia'' ''2024-05-01T12:00:00.000Z'' =
     (if st = COMPLETED then (exampleStore st, Inl AlreadyCompleted)
      else (exampleCompletedStore st, Inr (exampleCompletedSale st)))"
  by (simp add: completeSale_def example_defs finalItems_def finalDiscount_def
        saleSubTotal_def double_eval Let_def)

lemma completeSale_products_nonneg:
  assumes "stockNonNegative (products_table db)"
  shows "stockNonNegative (products_table (fst (completeSale db saleId c n t)))"
proof (cases "sales_table db saleId")
  case None
  with assms show ?thesis by (simp add: completeSale_def)
next
  case (Some sale)
  obtain ps r where u: "updateStock (products_table db) (finalItems sale) = (ps, r)"
    by (cases "updateStock (products_table db) (finalItems sale)")
  from updateStock_nonneg[OF assms, of "finalItems sale"] u
  have "stockNonNegative ps" by simp
  with assms u show ?thesis
    by (cases r) (simp_all add: completeSale_found[OF Some])
qed

lemma currentInCart_lineQuantity:
  "foldl (\<lambda>acc i. acc + quantity i) 0 (filter (\<lambda>i. productId i = p) lines) = lineQuantity p lines"
  by (simp add: lineQuantity_def foldl_add_sum_list)

lemma handleAddItem_products: "products (fst (handleAddItem st)) = products st"
  by (simp add: handleAddItem_def Let_def split: option.splits)

lemma handleAddItem_guard:
  assumes "cart (fst (handleAddItem st)) \<noteq> cart st"
  shows "\<exists>p. selectedProduct st = Some p
           \<and> lineQuantity (prod_id p) (cart (fst (handleAddItem st))) \<le> stock p"
proof (cases "selectedProduct st")
  case None
  with assms show ?thesis by (simp add: handleAddItem_def split: if_splits)
next
  case (Some p)
  with assms show ?thesis
    by (auto simp: handleAddItem_def Let_def currentInCart_lineQuantity lineQuantity_def
             split: if_splits)
qed

lemma updateStock_skips_missing:
  "updateStock ps lines = updateStock ps (filter (\<lambda>line. ps (productId line) \<noteq> None) lines)"
proof (induction lines arbitrary: ps)
  case Nil
  show ?case by simp
next
  case (Cons item rest)
  show ?case
  proof (cases "ps (productId item)")
    case None
    then show ?thesis using Cons.IH[of ps] by simp
  next
    case (Some pr)
    let ?ps = "ps(productId item \<mapsto> pr\<lparr>stock := stock pr - quantity item\<rparr>)"
    let ?P = "\<lambda>line. ps (productId line) \<noteq> None"
    have same: "(\<lambda>line. ?ps (productId line) \<noteq> None) = ?P"
      using Some by (auto simp: fun_eq_iff)
    have "updateStock ?ps rest =
        updateStock ?ps (filter (\<lambda>line. ?ps (productId line) \<noteq> None) rest)"
      by (rule Cons.IH)
    then have step: "updateStock ?ps rest = updateStock ?ps (filter ?P rest)"
      by (simp only: same)
    have lhs: "updateStock ps (item # rest) =
        (if stock pr < quantity item then (ps, Some InsufficientStock)
         else updateStock ?ps rest)"
      using Some by simp
    have rhs: "updateStock ps (filter ?P (item # rest)) =
        (if stock pr < quantity item then (ps, Some InsufficientStock)
         else updateStock ?ps (filter ?P rest))"
      using Some by simp
    show ?thesis unfolding lhs rhs step by (rule refl)
  qed
qed

lemma restoreStock_skips_missing:
  "restoreStock ps lines = restoreStock ps (filter (\<lambda>line. ps (productId line) \<noteq> None) lines)"
proof (induction lines arbitrary: ps)
  case Nil
  show ?case by simp
next
  case (Cons item rest)
  show ?case
  proof (cases "ps (productId item)")
    case None
    then show ?thesis using Cons.IH[of ps] by simp
  next
    case (Some pr)
    let ?ps = "ps(productId item \<mapsto> pr\<lparr>stock := stock pr + quantity item\<rparr>)"
    let ?P = "\<lambda>line. ps (productId line) \<noteq> None"
    have same: "(\<lambda>line. ?ps (productId line) \<noteq> None) = ?P"
      using Some by (auto simp: fun_eq_iff)
    have "restoreStock ?ps rest =
        restoreStock ?ps (filter (\<lambda>line. ?ps (productId line) \<noteq> None) rest)"
      by (rule Cons.IH)
    then have step: "restoreStock ?ps rest = restoreStock ?ps (filter ?P rest)"
      by (simp only: same)
    have lhs: "restoreStock ps (item # rest) = restoreStock ?ps rest"
      using Some by simp
    have rhs: "restoreStock ps (filter ?P (item # rest)) = restoreStock ?ps (filter ?P rest)"
      using Some by simp
    show ?thesis unfolding lhs rhs step by (rule refl)
  qed
qed

subsection \<open>The arithmetic of the screen\<close>



lemma totalGeneral_nonneg: "0 \<le> totalGeneral lines d f other"
  by (simp add: totalGeneral_def)

lemma parseMoney_nonneg: "0 \<le> parseMoney text"
  by (simp add: parseMoney_def Let_def)

lemma discount_entered_nonneg:
  "0 \<le> tempDiscountValue (handleDiscountValueChange st (parseMoney text))"
  "0 \<le> tempDiscountValue (handleDiscountPercentChange st pct)"
  "0 \<le> tempDiscountValue (handleDiscountTotalChange st targetTotal)"
  by (simp_all add: handleDiscountValueChange_def handleDiscountPercentChange_def
        handleDiscountTotalChange_def parseMoney_nonneg Let_def)

lemma editFinalPrice_value:
  assumes "0 \<le> unitPrice d" and "0 \<le> originalPrice d"
  shows "fst (editFinalPrice d) =
           (if unitPrice d = 0 then originalPrice d
            else max (unitPrice d) (originalPrice d * 0.94))"
  using assms
  by (auto simp: editFinalPrice_def editOriginal_def Let_def max_def split: if_splits)

lemma effectivePercent_back:
  assumes "0 < totalOriginalValue lines"
  shows "totalOriginalValue lines * effectivePercent lines v / 100 - discountFromItems lines = v"
proof -
  have "effectivePercent lines v = (discountFromItems lines + v) / totalOriginalValue lines * 100"
    using assms by (simp add: effectivePercent_def Let_def)
  also have "totalOriginalValue lines * \<dots> / 100 = discountFromItems lines + v"
    using assms by simp
  finally show ?thesis by linarith
qed

lemma consistent_after_amount:
  assumes "0 < totalOriginalValue (cart st)" and "0 \<le> v"
  shows "viewsConsistent (st\<lparr>tempDiscountValue := v,
           tempDiscountPercent := effectivePercent (cart st) v\<rparr>)"
  using assms
  by (simp add: viewsConsistent_def discountViews_def handleDiscountValueChange_def
        handleDiscountPercentChange_def handleDiscountTotalChange_def Let_def
        effectivePercent_back)

subsection \<open>Order total\<close>

text \<open>
  Claim C1. For every cart, order-level discount, freight and other-costs amount, the
  computed order total is the maximum of zero and the sum of the line totals minus the
  discount plus freight plus other costs.
\<close>

theorem totalGeneral_is_floored_sum:
  "totalGeneral lines orderDiscount freight' other =
     max 0 ((\<Sum>line\<leftarrow>lines. total line) - orderDiscount + freight' + other)"
  by (simp add: totalGeneral_def subTotal_sum_list)

subsection \<open>Proration of the order-level discount at completion\<close>

text \<open>
  Claim C2, as amended. When an order with a non-zero order-level discount \<open>d\<close> and a
  positive sum \<open>subtotal\<close> of line totals is completed, the completion computes
  \<open>factor = (subtotal - d) / subtotal\<close>, rewrites every line's unit price as its unit price
  at that moment times \<open>factor\<close> and the line's total as the new unit price times the
  quantity, each of these in double arithmetic, and writes the order with these lines,
  the order-level discount zero and the status Completed. The new line totals sum to
  \<open>subtotal - d\<close> when no step of the computation rounds; where a step rounds, the sum
  may differ from \<open>subtotal - d\<close>.

  The discount is an amount the screen has entered, hence not negative
  (\<open>discount_entered_nonneg\<close>).
\<close>

theorem completeSale_prorates_discount:
  assumes found: "sales_table db saleId = Some sale"
      and completed: "completeSale db saleId c n t = (db', Inr sale')"
      and nonzero: "discount sale \<noteq> 0"
      and amount: "0 \<le> discount sale"
      and positive: "0 < saleSubTotal sale"
      and factor: "factor = double (double (saleSubTotal sale - discount sale) / saleSubTotal sale)"
  shows "items sale' =
           map (\<lambda>line. line\<lparr>unitPrice := double (unitPrice line * factor),
                  total := double (double (unitPrice line * factor) * quantity line)\<rparr>)
             (items sale)
       \<and> discount sale' = 0
       \<and> status sale' = COMPLETED
       \<and> sales_table db' = (sales_table db)(saleId \<mapsto> sale')
       \<and> (prorationExact sale \<longrightarrow>
            (\<Sum>line\<leftarrow>items sale'. total line)
              = (\<Sum>line\<leftarrow>items sale. total line) - discount sale)"
proof -
  have d: "0 < discount sale" using nonzero amount by simp
  have fi: "finalItems sale =
      map (\<lambda>line. line\<lparr>unitPrice := double (unitPrice line * factor),
             total := double (double (unitPrice line * factor) * quantity line)\<rparr>) (items sale)"
    using d positive factor by (simp add: finalItems_def Let_def)
  have fd: "finalDiscount sale = 0"
    using d positive by (simp add: finalDiscount_def)
  note r = completeSale_success[OF found completed]
  have i: "items sale' = finalItems sale" and z: "discount sale' = 0"
    and st: "status sale' = COMPLETED"
    using r(3) fd by simp_all
  have "(\<Sum>line\<leftarrow>items sale'. total line)
          = (\<Sum>line\<leftarrow>items sale. total line) - discount sale"
    if exact: "prorationExact sale"
  proof -
    let ?s = "\<Sum>line\<leftarrow>items sale. total line"
    let ?f = "(?s - discount sale) / ?s"
    from exact have s: "saleSubTotal sale = ?s"
      and sd: "double (?s - discount sale) = ?s - discount sale"
      and f: "double ?f = ?f"
      and lines: "\<forall>line\<in>set (items sale).
               total line = unitPrice line * quantity line
             \<and> double (unitPrice line * ?f) = unitPrice line * ?f
             \<and> double (unitPrice line * ?f * quantity line) = unitPrice line * ?f * quantity line"
      by (simp_all add: prorationExact_def Let_def)
    have ff: "factor = ?f" using factor s sd f by simp
    have pos: "0 < ?s" using positive s by simp
    have "(\<Sum>line\<leftarrow>items sale'. total line) =
          (\<Sum>line\<leftarrow>items sale. double (double (unitPrice line * ?f) * quantity line))"
      by (simp add: i fi ff comp_def)
    also have "\<dots> = (\<Sum>line\<leftarrow>items sale. unitPrice line * ?f * quantity line)"
      using lines by (intro arg_cong[where f = sum_list] map_cong) simp_all
    also have "\<dots> = ?f * (\<Sum>line\<leftarrow>items sale. unitPrice line * quantity line)"
      by (rule sum_list_scaled)
    also have "(\<Sum>line\<leftarrow>items sale. unitPrice line * quantity line) = ?s"
      using lines by (intro arg_cong[where f = sum_list] map_cong) simp_all
    also have "?f * ?s = ?s - discount sale" using pos by simp
    finally show ?thesis .
  qed
  with i fi z st r(4) show ?thesis by simp
qed

theorem completeSale_prorates_discount_witness:
  "discount exampleExactSale \<noteq> 0 \<and> 0 < saleSubTotal exampleExactSale
   \<and> prorationExact exampleExactSale
   \<and> double (double (saleSubTotal exampleExactSale - discount exampleExactSale)
        / saleSubTotal exampleExactSale) = 3 / 4
   \<and> map unitPrice (items exampleExactSale) = [16]
   \<and> map_sum id (map unitPrice \<circ> items)
        (snd (completeSale exampleExactStore ''s1'' ''u2'' ''Bia'' ''2024-05-01T12:00:00.000Z''))
       = Inr [12]
   \<and> map_sum id (map total \<circ> items)
        (snd (completeSale exampleExactStore ''s1'' ''u2'' ''Bia'' ''2024-05-01T12:00:00.000Z''))
       = Inr [24]
   \<and> map_sum id discount
        (snd (completeSale exampleExactStore ''s1'' ''u2'' ''Bia'' ''2024-05-01T12:00:00.000Z''))
       = Inr 0
   \<and> map_option (\<lambda>sale. (status sale, discount sale, map total (items sale)))
        (sales_table
          (fst (completeSale exampleExactStore ''s1'' ''u2'' ''Bia'' ''2024-05-01T12:00:00.000Z''))
          ''s1'')
       = Some (COMPLETED, 0, [32 - 8])"
proof -
  obtain db' r where c: "completeSale exampleExactStore ''s1'' ''u2'' ''Bia''
      ''2024-05-01T12:00:00.000Z'' = (db', r)"
    by (cases "completeSale exampleExactStore ''s1'' ''u2'' ''Bia'' ''2024-05-01T12:00:00.000Z''")
  have found: "sales_table exampleExactStore ''s1'' = Some exampleExactSale"
    by (simp add: exampleExactStore_def)
  have sub: "saleSubTotal exampleExactSale = 32"
    by (simp add: saleSubTotal_def exampleExactSale_def exampleLine_def double_eval)
  have nonzero: "discount exampleExactSale \<noteq> 0" and amount: "0 \<le> discount exampleExactSale"
    and d: "discount exampleExactSale = 8"
    and its: "items exampleExactSale
        = [exampleLine\<lparr>quantity := 2, unitPrice := 16, originalPrice := 16, total := 32\<rparr>]"
    by (simp_all add: exampleExactSale_def)
  have positive: "0 < saleSubTotal exampleExactSale" by (simp add: sub)
  have factor: "(3 / 4 :: real) = double (double (saleSubTotal exampleExactSale
      - discount exampleExactSale) / saleSubTotal exampleExactSale)"
    by (simp add: sub d double_eval)
  have exact: "prorationExact exampleExactSale"
    by (simp add: prorationExact_def sub d its exampleLine_def double_values Let_def)
  have u: "updateStock (products_table exampleExactStore) (finalItems exampleExactSale)
      = ([''p1'' \<mapsto> exampleProduct\<lparr>price := 16, stock := 3\<rparr>], None)"
    by (simp add: exampleExactStore_def finalItems_def sub d its exampleLine_def
          exampleProduct_def Let_def)
  have ok: "status exampleExactSale \<noteq> COMPLETED"
    by (simp add: exampleExactSale_def exampleSale_def)
  from c obtain sale' where r: "r = Inr sale'"
    by (cases r) (auto simp: completeSale_found[OF found] ok u)
  note T = completeSale_prorates_discount[OF found c[unfolded r] nonzero amount positive factor]
  from T have i: "items sale' =
      map (\<lambda>line. line\<lparr>unitPrice := double (unitPrice line * (3 / 4)),
             total := double (double (unitPrice line * (3 / 4)) * quantity line)\<rparr>)
        (items exampleExactSale)"
    by blast
  from T have z: "discount sale' = 0" and st: "status sale' = COMPLETED"
    and w: "sales_table db' = (sales_table exampleExactStore)(''s1'' \<mapsto> sale')"
    by blast+
  have i': "items sale' = [exampleLine\<lparr>quantity := 2, unitPrice := 12, originalPrice := 16,
      total := 24\<rparr>]"
    unfolding i its by (simp add: exampleLine_def double_values)
  have p: "map unitPrice (items sale') = [12]" and q: "map total (items sale') = [24]"
    by (simp_all add: i')
  have v: "map unitPrice (items exampleExactSale) = [16]" by (simp add: its)
  from c r p q z st w nonzero positive exact factor v show ?thesis by simp
qed

text \<open>The claim as it was stated fails where a product rounds: one unit at 25.00 with a
  discount of 11.00 has the factor 14/25, which no double holds, and the line is written
  with the total \<open>14 + 2\<^sup>-\<^sup>4\<^sup>9\<close> (printed 14.000000000000002), not 14.\<close>

theorem completeSale_rounded_total:
  "discount exampleRoundingSale \<noteq> 0
   \<and> saleSubTotal exampleRoundingSale = 25
   \<and> saleSubTotal exampleRoundingSale - discount exampleRoundingSale = 14
   \<and> map_option (\<lambda>sale. (status sale, discount sale, map total (items sale)))
        (sales_table
          (fst (completeSale exampleRoundingStore ''s1'' ''u2'' ''Bia'' ''2024-05-01T12:00:00.000Z''))
          ''s1'')
       = Some (COMPLETED, 0, [14 + 1 / 2 ^ 49])
   \<and> map_option (\<lambda>sale. \<Sum>line\<leftarrow>items sale. total line)
        (sales_table
          (fst (completeSale exampleRoundingStore ''s1'' ''u2'' ''Bia'' ''2024-05-01T12:00:00.000Z''))
          ''s1'')
       \<noteq> Some (saleSubTotal exampleRoundingSale - discount exampleRoundingSale)"
  by (simp add: completeSale_def exampleRoundingStore_def exampleRoundingSale_def
        exampleSale_def exampleLine_def exampleProduct_def finalItems_def finalDiscount_def
        saleSubTotal_def double_eval Let_def)

subsection \<open>The status guard of completion\<close>




subsection \<open>The authorization gate of the order-level discount\<close>





subsection \<open>Payment validation at submission\<close>




subsection \<open>The price floor of a line edit\<close>

text \<open>
  Claim C6. Saving the edit of a cart line with a positive quantity sets the line's unit
  price to its original price when the entered price is zero (an empty field reads as
  zero), and otherwise to the entered price raised to the floor of 0.94 times the original
  price; the resulting unit price is at least 0.94 times the original price, and the
  line's total is the resulting unit price times the quantity. Prices are amounts of
  money, as \<^const>\<open>parseMoney\<close> yields them: the entered and the original price are not
  negative.
\<close>

theorem saveEditItem_price_floor:
  assumes "editItemIndex st = Some idx" and "idx < length (cart st)"
      and "editItemData st = Some d"
      and "0 < quantity d" and "0 \<le> unitPrice d" and "0 \<le> originalPrice d"
      and "p = (if unitPrice d = 0 then originalPrice d
                else max (unitPrice d) (originalPrice d * 0.94))"
  shows "(\<exists>ns. saveEditItem st =
            Some (st\<lparr>cart := (cart st)[idx := d\<lparr>unitPrice := p, total := quantity d * p\<rparr>],
                    editModalOpen := False\<rparr>, ns))
       \<and> 0.94 * originalPrice d \<le> p
       \<and> (\<forall>st' ns. saveEditItem st = Some (st', ns) \<longrightarrow>
             unitPrice (cart st' ! idx) = p
           \<and> 0.94 * originalPrice (cart st' ! idx) \<le> unitPrice (cart st' ! idx)
           \<and> total (cart st' ! idx) = unitPrice (cart st' ! idx) * quantity (cart st' ! idx)
           \<and> quantity (cart st' ! idx) = quantity d
           \<and> originalPrice (cart st' ! idx) = originalPrice d)"
proof -
  have fp: "fst (editFinalPrice d) = p"
    using assms(5,6,7) by (simp add: editFinalPrice_value)
  have s: "saveEditItem st =
      Some (st\<lparr>cart := (cart st)[idx := d\<lparr>unitPrice := p, total := quantity d * p\<rparr>],
              editModalOpen := False\<rparr>, snd (editFinalPrice d))"
    using assms(1-4) fp
    by (simp add: saveEditItem_def arrayAssign_def Let_def case_prod_beta)
  have fl: "0.94 * originalPrice d \<le> p"
    using assms(5,6,7) by (auto simp: max_def)
  from s fl assms(2) show ?thesis by (auto simp: mult.commute)
qed


theorem saveEditItem_price_floor_witness:
  "(\<exists>ns. saveEditItem (exampleEditState 9) =
      Some ((exampleEditState 9)\<lparr>cart := [exampleLine\<lparr>unitPrice := 47 / 5, total := 141 / 5\<rparr>],
              editModalOpen := False\<rparr>, ns))
   \<and> (\<exists>ns. saveEditItem (exampleEditState 0) =
      Some ((exampleEditState 0)\<lparr>cart := [exampleLine\<lparr>unitPrice := 10, total := 30\<rparr>],
              editModalOpen := False\<rparr>, ns))
   \<and> (\<exists>ns. saveEditItem (exampleEditState 12) =
      Some ((exampleEditState 12)\<lparr>cart := [exampleLine\<lparr>unitPrice := 12, total := 36\<rparr>],
              editModalOpen := False\<rparr>, ns))
   \<and> 0.94 * originalPrice exampleLine \<le> 47 / 5"
proof -
  have h: "editItemIndex (exampleEditState e) = Some 0"
      "0 < length (cart (exampleEditState e))"
      "editItemData (exampleEditState e) = Some (exampleLine\<lparr>unitPrice := e\<rparr>)"
      "0 < quantity (exampleLine\<lparr>unitPrice := e\<rparr>)"
      "0 \<le> originalPrice (exampleLine\<lparr>unitPrice := e\<rparr>)"
      "cart (exampleEditState e) = [exampleLine]" for e
    by (simp_all add: exampleEditState_def openEditModal_def initialState_def exampleLine_def)
  have p9: "(47 / 5 :: real) = (if unitPrice (exampleLine\<lparr>unitPrice := 9\<rparr>) = 0
                then originalPrice (exampleLine\<lparr>unitPrice := 9\<rparr>)
                else max (unitPrice (exampleLine\<lparr>unitPrice := 9\<rparr>))
                       (originalPrice (exampleLine\<lparr>unitPrice := 9\<rparr>) * 0.94))"
    and p0: "(10 :: real) = (if unitPrice (exampleLine\<lparr>unitPrice := 0\<rparr>) = 0
                then originalPrice (exampleLine\<lparr>unitPrice := 0\<rparr>)
                else max (unitPrice (exampleLine\<lparr>unitPrice := 0\<rparr>))
                       (originalPrice (exampleLine\<lparr>unitPrice := 0\<rparr>) * 0.94))"
    and p12: "(12 :: real) = (if unitPrice (exampleLine\<lparr>unitPrice := 12\<rparr>) = 0
                then originalPrice (exampleLine\<lparr>unitPrice := 12\<rparr>)
                else max (unitPrice (exampleLine\<lparr>unitPrice := 12\<rparr>))
                       (originalPrice (exampleLine\<lparr>unitPrice := 12\<rparr>) * 0.94))"
    by (simp_all add: exampleLine_def)
  have n: "0 \<le> unitPrice (exampleLine\<lparr>unitPrice := 9\<rparr>)"
      "0 \<le> unitPrice (exampleLine\<lparr>unitPrice := 0\<rparr>)"
      "0 \<le> unitPrice (exampleLine\<lparr>unitPrice := 12\<rparr>)"
    by simp_all
  from saveEditItem_price_floor[OF h(1) h(2) h(3) h(4) n(1) h(5) p9]
  have a: "(\<exists>ns. saveEditItem (exampleEditState 9) =
      Some ((exampleEditState 9)\<lparr>cart := [exampleLine\<lparr>unitPrice := 47 / 5, total := 141 / 5\<rparr>],
              editModalOpen := False\<rparr>, ns))
     \<and> 0.94 * originalPrice exampleLine \<le> 47 / 5"
    by (simp add: h(6) exampleLine_def)
  from saveEditItem_price_floor[OF h(1) h(2) h(3) h(4) n(2) h(5) p0]
  have b: "\<exists>ns. saveEditItem (exampleEditState 0) =
      Some ((exampleEditState 0)\<lparr>cart := [exampleLine\<lparr>unitPrice := 10, total := 30\<rparr>],
              editModalOpen := False\<rparr>, ns)"
    by (simp add: h(6) exampleLine_def)
  from saveEditItem_price_floor[OF h(1) h(2) h(3) h(4) n(3) h(5) p12]
  have c: "\<exists>ns. saveEditItem (exampleEditState 12) =
      Some ((exampleEditState 12)\<lparr>cart := [exampleLine\<lparr>unitPrice := 12, total := 36\<rparr>],
              editModalOpen := False\<rparr>, ns)"
    by (simp add: h(6) exampleLine_def)
  from a b c show ?thesis by blast
qed

subsection \<open>The three views of the discount modal\<close>

text \<open>
  Claim C7, as amended. On a cart of positive original value, after the amount is edited
  to a value that is not negative, or the target total is edited to any value, the three
  views (amount, percentage, total to pay) agree: feeding each of them back through its
  own handler gives the same three values, exactly. After the percentage is edited they
  agree when the entered percentage is at least the percentage of the discount already
  given on the lines.
\<close>

theorem discount_views_round_trip:
  assumes "0 < totalOriginalValue (cart st)"
  shows "(0 \<le> val \<longrightarrow> viewsConsistent (handleDiscountValueChange st val))
       \<and> viewsConsistent (handleDiscountTotalChange st targetTotal)
       \<and> (effectivePercent (cart st) 0 \<le> pct \<longrightarrow>
            viewsConsistent (handleDiscountPercentChange st pct))"
proof (intro conjI impI)
  assume "0 \<le> val"
  with assms show "viewsConsistent (handleDiscountValueChange st val)"
    by (simp add: handleDiscountValueChange_def consistent_after_amount)
next
  have "0 \<le> max 0 (subTotal (cart st) - targetTotal)" by simp
  from consistent_after_amount[OF assms this]
  show "viewsConsistent (handleDiscountTotalChange st targetTotal)"
    by (simp add: handleDiscountTotalChange_def Let_def)
next
  let ?O = "totalOriginalValue (cart st)"
  let ?v = "?O * pct / 100 - discountFromItems (cart st)"
  assume "effectivePercent (cart st) 0 \<le> pct"
  with assms have "discountFromItems (cart st) / ?O * 100 \<le> pct"
    by (simp add: effectivePercent_def)
  with assms have "discountFromItems (cart st) \<le> ?O * pct / 100"
    by (simp add: field_simps)
  then have v: "0 \<le> ?v" by simp
  have p: "effectivePercent (cart st) ?v = pct"
    using assms by (simp add: effectivePercent_def Let_def)
  have "handleDiscountPercentChange st pct =
      st\<lparr>tempDiscountPercent := pct, tempDiscountValue := ?v\<rparr>"
    using v by (simp add: handleDiscountPercentChange_def Let_def max_def)
  also have "\<dots> = st\<lparr>tempDiscountValue := ?v,
           tempDiscountPercent := effectivePercent (cart st) ?v\<rparr>"
    by (simp add: p)
  finally show "viewsConsistent (handleDiscountPercentChange st pct)"
    using consistent_after_amount[OF assms v] by simp
qed

theorem discount_views_round_trip_witness:
  "0 < totalOriginalValue (cart exampleOpenModalState)
   \<and> discountViews (handleDiscountTotalChange exampleOpenModalState 27) = (3, 10, 27)
   \<and> viewsConsistent (handleDiscountTotalChange exampleOpenModalState 27)
   \<and> discountViews (handleDiscountValueChange exampleOpenModalState 3) = (3, 10, 27)
   \<and> viewsConsistent (handleDiscountValueChange exampleOpenModalState 3)
   \<and> discountViews (handleDiscountPercentChange exampleOpenModalState 10) = (3, 10, 27)
   \<and> viewsConsistent (handleDiscountPercentChange exampleOpenModalState 10)"
proof -
  have c: "cart exampleOpenModalState = [exampleLine]"
    by (simp add: exampleOpenModalState_def openDiscountModal_def initialState_def)
  have o: "0 < totalOriginalValue (cart exampleOpenModalState)"
    by (simp add: c totalOriginalValue_def exampleLine_def)
  have e: "effectivePercent (cart exampleOpenModalState) 0 \<le> 10"
    by (simp add: c effectivePercent_def discountFromItems_def totalOriginalValue_def
          subTotal_def exampleLine_def)
  have v: "discountViews (handleDiscountTotalChange exampleOpenModalState 27) = (3, 10, 27)"
      "discountViews (handleDiscountValueChange exampleOpenModalState 3) = (3, 10, 27)"
      "discountViews (handleDiscountPercentChange exampleOpenModalState 10) = (3, 10, 27)"
    by (simp_all add: discountViews_def handleDiscountTotalChange_def
          handleDiscountValueChange_def handleDiscountPercentChange_def c effectivePercent_def
          discountFromItems_def totalOriginalValue_def subTotal_def exampleLine_def Let_def)
  from discount_views_round_trip[OF o, of 3 27 10] e
  have "viewsConsistent (handleDiscountValueChange exampleOpenModalState 3)
      \<and> viewsConsistent (handleDiscountTotalChange exampleOpenModalState 27)
      \<and> viewsConsistent (handleDiscountPercentChange exampleOpenModalState 10)"
    by simp
  with o v show ?thesis by blast
qed

text \<open>The claim as it was stated fails when the percentage is edited below the discount of
  the lines: on a line discounted by 6%, entering 3 leaves the amount at 0 and shows 3,
  while the amount 0 fed back through its handler shows 6. It also fails on a cart without
  original value, such as the empty cart: the amount 5 shows 0%, and 0% fed back through
  its handler gives the amount 0.\<close>

theorem discount_percent_edit_not_consistent:
  "discountViews exampleModalState = (0, 6, 94)
   \<and> discountViews (handleDiscountPercentChange exampleModalState 3) = (0, 3, 94)
   \<and> discountViews (handleDiscountValueChange (handleDiscountPercentChange exampleModalState 3) 0)
       = (0, 6, 94)
   \<and> \<not> viewsConsistent (handleDiscountPercentChange exampleModalState 3)
   \<and> discountViews (handleDiscountValueChange initialState 5) = (5, 0, - 5)
   \<and> discountViews (handleDiscountPercentChange (handleDiscountValueChange initialState 5) 0)
       = (0, 0, 0)
   \<and> \<not> viewsConsistent (handleDiscountValueChange initialState 5)"
  by (simp add: exampleModalState_def openDiscountModal_def initialState_def
        exampleDiscountedLine_def viewsConsistent_def discountViews_def
        handleDiscountPercentChange_def handleDiscountValueChange_def
        handleDiscountTotalChange_def effectivePercent_def discountFromItems_def
        totalOriginalValue_def subTotal_def Let_def)

subsection \<open>Cancellation restores the stock\<close>

text \<open>
  Claim C8. Cancelling an order whose status is Completed adds each line's quantity back
  to the stock of the line's product, so that every product of the table ends with its
  stock plus the quantities of the order's lines on that product, and the stock is again
  what it was before the completion that produced the order; the order is then written
  with status Cancelled. Cancelling an order of any other status writes the status
  Cancelled and leaves the stock of every product as it was.
\<close>

theorem cancelSale_restores_stock:
  assumes "sales_table db saleId = Some sale"
  shows "snd (cancelSale db saleId) = Inr (sale\<lparr>status := CANCELLED\<rparr>)
     \<and> sales_table (fst (cancelSale db saleId))
           = (sales_table db)(saleId \<mapsto> sale\<lparr>status := CANCELLED\<rparr>)
     \<and> (status sale = COMPLETED \<longrightarrow>
          (\<forall>p. products_table (fst (cancelSale db saleId)) p =
                map_option (\<lambda>pr. pr\<lparr>stock := stock pr + lineQuantity p (items sale)\<rparr>)
                  (products_table db p)))
     \<and> (status sale \<noteq> COMPLETED \<longrightarrow>
          products_table (fst (cancelSale db saleId)) = products_table db)
     \<and> (\<forall>db0 c n t. completeSale db0 saleId c n t = (db, Inr sale) \<longrightarrow>
          products_table (fst (cancelSale db saleId)) = products_table db0)"
proof (intro conjI impI allI)
  show "snd (cancelSale db saleId) = Inr (sale\<lparr>status := CANCELLED\<rparr>)"
    by (simp add: cancelSale_found[OF assms])
  show "sales_table (fst (cancelSale db saleId))
           = (sales_table db)(saleId \<mapsto> sale\<lparr>status := CANCELLED\<rparr>)"
    by (simp add: cancelSale_found[OF assms])
next
  fix p
  assume "status sale = COMPLETED"
  then show "products_table (fst (cancelSale db saleId)) p =
                map_option (\<lambda>pr. pr\<lparr>stock := stock pr + lineQuantity p (items sale)\<rparr>)
                  (products_table db p)"
    by (simp add: cancelSale_found[OF assms] restoreStock_lookup)
next
  assume "status sale \<noteq> COMPLETED"
  then show "products_table (fst (cancelSale db saleId)) = products_table db"
    by (simp add: cancelSale_found[OF assms])
next
  fix db0 c n t
  assume compl: "completeSale db0 saleId c n t = (db, Inr sale)"
  from compl obtain sale0 where found0: "sales_table db0 saleId = Some sale0"
    by (cases "sales_table db0 saleId") (simp_all add: completeSale_def)
  note r = completeSale_success[OF found0 compl]
  have "status sale = COMPLETED" and "items sale = finalItems sale0"
    using r(3) by simp_all
  with restore_after_update[OF r(2)]
  show "products_table (fst (cancelSale db saleId)) = products_table db0"
    by (simp add: cancelSale_found[OF assms])
qed

theorem cancelSale_restores_stock_witness:
  "map_option stock (products_table (exampleStore PENDING) ''p1'') = Some 5
   \<and> map_option stock (products_table (exampleCompletedStore PENDING) ''p1'') = Some 2
   \<and> snd (cancelSale (exampleCompletedStore PENDING) ''s1'')
        = Inr ((exampleCompletedSale PENDING)\<lparr>status := CANCELLED\<rparr>)
   \<and> map_option stock (products_table (fst (cancelSale (exampleCompletedStore PENDING) ''s1'')) ''p1'')
        = Some (2 + 3)
   \<and> products_table (fst (cancelSale (exampleCompletedStore PENDING) ''s1''))
        = products_table (exampleStore PENDING)
   \<and> products_table (fst (cancelSale (exampleStore PENDING) ''s1''))
        = products_table (exampleStore PENDING)"
proof -
  have f1: "sales_table (exampleCompletedStore PENDING) ''s1'' = Some (exampleCompletedSale PENDING)"
    and f2: "sales_table (exampleStore PENDING) ''s1'' = Some (exampleSale PENDING)"
    by (simp_all add: exampleStore_def exampleCompletedStore_def)
  have s1: "status (exampleCompletedSale PENDING) = COMPLETED"
    and s2: "status (exampleSale PENDING) \<noteq> COMPLETED"
    by (simp_all add: exampleSale_def exampleCompletedSale_def)
  have c: "completeSale (exampleStore PENDING) ''s1'' ''u2'' ''Bia'' ''2024-05-01T12:00:00.000Z''
       = (exampleCompletedStore PENDING, Inr (exampleCompletedSale PENDING))"
    by (simp add: example_completion)
  have q: "lineQuantity ''p1'' (items (exampleCompletedSale PENDING)) = 3"
    by (simp add: lineQuantity_def exampleCompletedSale_def exampleLine_def)
  have v: "map_option stock (products_table (exampleStore PENDING) ''p1'') = Some 5"
      "map_option stock (products_table (exampleCompletedStore PENDING) ''p1'') = Some 2"
      "products_table (exampleCompletedStore PENDING) ''p1'' = Some (exampleProduct\<lparr>stock := 2\<rparr>)"
    by (simp_all add: example_defs)
  note A = cancelSale_restores_stock[OF f1]
  note B = cancelSale_restores_stock[OF f2]
  from A have a1: "snd (cancelSale (exampleCompletedStore PENDING) ''s1'')
        = Inr ((exampleCompletedSale PENDING)\<lparr>status := CANCELLED\<rparr>)"
    by blast
  from A s1 have "products_table (fst (cancelSale (exampleCompletedStore PENDING) ''s1'')) ''p1'' =
      map_option (\<lambda>pr. pr\<lparr>stock := stock pr + lineQuantity ''p1'' (items (exampleCompletedSale PENDING))\<rparr>)
        (products_table (exampleCompletedStore PENDING) ''p1'')"
    by blast
  then have a2: "map_option stock
      (products_table (fst (cancelSale (exampleCompletedStore PENDING) ''s1'')) ''p1'') = Some (2 + 3)"
    by (simp add: q v exampleProduct_def)
  from A c have a3: "products_table (fst (cancelSale (exampleCompletedStore PENDING) ''s1''))
        = products_table (exampleStore PENDING)"
    by blast
  from B s2 have a4: "products_table (fst (cancelSale (exampleStore PENDING) ''s1''))
        = products_table (exampleStore PENDING)"
    by blast
  from v(1,2) a1 a2 a3 a4 show ?thesis by blast
qed


subsection \<open>The stock and negative quantities\<close>

text \<open>
  Claim C9. The stock of every product is to stay non-negative through adding an item,
  completing an order and cancelling an order. Completion and adding an item keep it so
  (\<open>completeSale_products_nonneg\<close>, \<open>handleAddItem_products\<close>, \<open>handleAddItem_guard\<close>),
  but the code breaks the claim at cancellation. The edit of a line accepts the quantity
  -5 and the order of that line is submitted. With five units in stock, its completion
  leaves ten, the completion of two orders of three units each leaves four, and the
  cancellation of the first order then writes the stock -1. No stock is negative before
  the cancellation.
\<close>

theorem cancelSale_negative_quantity:
  "(\<exists>ns. saveEditItem exampleReturnEditState = Some (exampleReturnCartState, ns))
   \<and> handleSubmitSale exampleReturnCartState ''u1'' ''Ana'' False
       = Inr (CreateSale \<lparr>pl_items = [exampleReturnLine], pl_sellerId = ''u1'',
           pl_sellerName = ''Ana'', pl_discount = 0, pl_freight = 0, pl_otherCosts = 0,
           pl_payments = noPayments, pl_installments = 1, pl_totalValue = 0,
           pl_status = PENDING\<rparr>)
   \<and> stockNonNegative (products_table exampleReturnStore)
   \<and> map_option stock (products_table exampleReturnStore ''p1'') = Some 5
   \<and> snd (completeSale exampleReturnStore ''s1'' ''u2'' ''Bia'' ''2024-05-01T12:00:00.000Z'')
       = Inr ((exampleReturnSale COMPLETED)\<lparr>cashierId := Some ''u2'',
           cashierName := Some ''Bia'', finishedAt := Some ''2024-05-01T12:00:00.000Z''\<rparr>)
   \<and> stockNonNegative (products_table exampleReturnStore1)
   \<and> map_option stock (products_table exampleReturnStore1 ''p1'') = Some 10
   \<and> snd (completeSale exampleReturnStore1 ''s2'' ''u2'' ''Bia'' ''2024-05-01T12:30:00.000Z'')
       = Inr ((exampleUnitsSale ''s2'' COMPLETED)\<lparr>cashierId := Some ''u2'',
           cashierName := Some ''Bia'', finishedAt := Some ''2024-05-01T12:30:00.000Z''\<rparr>)
   \<and> stockNonNegative (products_table exampleReturnStore2)
   \<and> map_option stock (products_table exampleReturnStore2 ''p1'') = Some 7
   \<and> snd (completeSale exampleReturnStore2 ''s3'' ''u2'' ''Bia'' ''2024-05-01T13:00:00.000Z'')
       = Inr ((exampleUnitsSale ''s3'' COMPLETED)\<lparr>cashierId := Some ''u2'',
           cashierName := Some ''Bia'', finishedAt := Some ''2024-05-01T13:00:00.000Z''\<rparr>)
   \<and> stockNonNegative (products_table exampleReturnStore3)
   \<and> map_option stock (products_table exampleReturnStore3 ''p1'') = Some 4
   \<and> snd (cancelSale exampleReturnStore3 ''s1'')
       = Inr ((exampleReturnSale CANCELLED)\<lparr>cashierId := Some ''u2'',
           cashierName := Some ''Bia'', finishedAt := Some ''2024-05-01T12:00:00.000Z''\<rparr>)
   \<and> map_option stock (products_table exampleReturnStore4 ''p1'') = Some (- 1)
   \<and> \<not> stockNonNegative (products_table exampleReturnStore4)"
proof -
  have e: "\<exists>ns. saveEditItem exampleReturnEditState = Some (exampleReturnCartState, ns)"
    by (simp add: saveEditItem_def exampleReturnEditState_def exampleReturnCartState_def
          exampleReturnLine_def openEditModal_def initialState_def exampleLine_def
          editFinalPrice_def editOriginal_def arrayAssign_def Let_def)
  have h: "handleSubmitSale exampleReturnCartState ''u1'' ''Ana'' False
       = Inr (CreateSale \<lparr>pl_items = [exampleReturnLine], pl_sellerId = ''u1'',
           pl_sellerName = ''Ana'', pl_discount = 0, pl_freight = 0, pl_otherCosts = 0,
           pl_payments = noPayments, pl_installments = 1, pl_totalValue = 0,
           pl_status = PENDING\<rparr>)"
    by (simp add: handleSubmitSale_def exampleReturnCartState_def exampleReturnEditState_def
          exampleReturnLine_def openEditModal_def initialState_def exampleLine_def
          totalGeneral_def subTotal_def totalPaid_def paymentValues_def noPayments_def Let_def)
  note sales = exampleReturnSale_def exampleUnitsSale_def exampleSale_def
  note lines = exampleReturnLine_def exampleLine_def exampleProduct_def
  note ev = completeSale_def cancelSale_def finalItems_def finalDiscount_def Let_def
  let ?done1 = "(exampleReturnSale COMPLETED)\<lparr>cashierId := Some ''u2'',
      cashierName := Some ''Bia'', finishedAt := Some ''2024-05-01T12:00:00.000Z''\<rparr>"
  have c1: "snd (completeSale exampleReturnStore ''s1'' ''u2'' ''Bia''
      ''2024-05-01T12:00:00.000Z'') = Inr ?done1"
    and p1: "products_table exampleReturnStore1 = [''p1'' \<mapsto> exampleProduct\<lparr>stock := 10\<rparr>]"
    and s1: "sales_table exampleReturnStore1 ''s1'' = Some ?done1"
      "sales_table exampleReturnStore1 ''s2'' = Some (exampleUnitsSale ''s2'' PENDING)"
      "sales_table exampleReturnStore1 ''s3'' = Some (exampleUnitsSale ''s3'' PENDING)"
    by (simp_all add: exampleReturnStore1_def exampleReturnStore_def ev sales lines)
  have c2: "completeSale exampleReturnStore1 ''s2'' ''u2'' ''Bia'' ''2024-05-01T12:30:00.000Z''
      = (exampleReturnStore1\<lparr>products_table := [''p1'' \<mapsto> exampleProduct\<lparr>stock := 7\<rparr>],
           sales_table := (sales_table exampleReturnStore1)(''s2'' \<mapsto>
             (exampleUnitsSale ''s2'' COMPLETED)\<lparr>cashierId := Some ''u2'',
                cashierName := Some ''Bia'',
                finishedAt := Some ''2024-05-01T12:30:00.000Z''\<rparr>)\<rparr>,
         Inr ((exampleUnitsSale ''s2'' COMPLETED)\<lparr>cashierId := Some ''u2'',
                cashierName := Some ''Bia'',
                finishedAt := Some ''2024-05-01T12:30:00.000Z''\<rparr>))"
    unfolding completeSale_def s1 p1
    by (simp add: finalItems_def finalDiscount_def sales lines Let_def)
  have p2: "products_table exampleReturnStore2 = [''p1'' \<mapsto> exampleProduct\<lparr>stock := 7\<rparr>]"
    and s2: "sales_table exampleReturnStore2 ''s1'' = Some ?done1"
      "sales_table exampleReturnStore2 ''s3'' = Some (exampleUnitsSale ''s3'' PENDING)"
    by (simp_all add: exampleReturnStore2_def c2 s1)
  have c3: "completeSale exampleReturnStore2 ''s3'' ''u2'' ''Bia'' ''2024-05-01T13:00:00.000Z''
      = (exampleReturnStore2\<lparr>products_table := [''p1'' \<mapsto> exampleProduct\<lparr>stock := 4\<rparr>],
           sales_table := (sales_table exampleReturnStore2)(''s3'' \<mapsto>
             (exampleUnitsSale ''s3'' COMPLETED)\<lparr>cashierId := Some ''u2'',
                cashierName := Some ''Bia'',
                finishedAt := Some ''2024-05-01T13:00:00.000Z''\<rparr>)\<rparr>,
         Inr ((exampleUnitsSale ''s3'' COMPLETED)\<lparr>cashierId := Some ''u2'',
                cashierName := Some ''Bia'',
                finishedAt := Some ''2024-05-01T13:00:00.000Z''\<rparr>))"
    unfolding completeSale_def s2 p2
    by (simp add: finalItems_def finalDiscount_def sales lines Let_def)
  have p3: "products_table exampleReturnStore3 = [''p1'' \<mapsto> exampleProduct\<lparr>stock := 4\<rparr>]"
    and s3: "sales_table exampleReturnStore3 ''s1'' = Some ?done1"
    by (simp_all add: exampleReturnStore3_def c3 s2)
  have c4: "cancelSale exampleReturnStore3 ''s1'' =
      (exampleReturnStore3\<lparr>products_table := [''p1'' \<mapsto> exampleProduct\<lparr>stock := - 1\<rparr>],
         sales_table := (sales_table exampleReturnStore3)(''s1'' \<mapsto>
           (exampleReturnSale CANCELLED)\<lparr>cashierId := Some ''u2'',
             cashierName := Some ''Bia'',
             finishedAt := Some ''2024-05-01T12:00:00.000Z''\<rparr>)\<rparr>,
       Inr ((exampleReturnSale CANCELLED)\<lparr>cashierId := Some ''u2'',
           cashierName := Some ''Bia'', finishedAt := Some ''2024-05-01T12:00:00.000Z''\<rparr>))"
    unfolding cancelSale_def s3 p3
    by (simp add: sales lines Let_def)
  have p4: "products_table exampleReturnStore4 ''p1'' = Some (exampleProduct\<lparr>stock := - 1\<rparr>)"
    by (simp add: exampleReturnStore4_def c4)
  have n: "stockNonNegative (products_table exampleReturnStore)"
    "stockNonNegative (products_table exampleReturnStore1)"
    "stockNonNegative (products_table exampleReturnStore2)"
    "stockNonNegative (products_table exampleReturnStore3)"
    by (simp_all add: stockNonNegative_def p1 p2 p3 exampleReturnStore_def exampleProduct_def)
  have v: "map_option stock (products_table exampleReturnStore ''p1'') = Some 5"
    "map_option stock (products_table exampleReturnStore1 ''p1'') = Some 10"
    "map_option stock (products_table exampleReturnStore2 ''p1'') = Some 7"
    "map_option stock (products_table exampleReturnStore3 ''p1'') = Some 4"
    "map_option stock (products_table exampleReturnStore4 ''p1'') = Some (- 1)"
    by (simp_all add: p1 p2 p3 p4 exampleReturnStore_def exampleProduct_def)
  have neg: "\<not> stockNonNegative (products_table exampleReturnStore4)"
  proof
    assume "stockNonNegative (products_table exampleReturnStore4)"
    with p4 have "0 \<le> stock (exampleProduct\<lparr>stock := - 1\<rparr>)"
      unfolding stockNonNegative_def by blast
    then show False by simp
  qed
  from e h n v c1 c2 c3 c4 neg show ?thesis by simp
qed

theorem cancelSale_negative_quantity_witness:
  "map_option stock (products_table exampleReturnStore3 ''p1'') = Some 4
   \<and> lineQuantity ''p1'' (items (exampleReturnSale COMPLETED)) = - 5
   \<and> map_option stock (products_table (fst (cancelSale exampleReturnStore3 ''s1'')) ''p1'')
       = Some (- 1)"
  using cancelSale_negative_quantity
  by (simp add: exampleReturnStore4_def lineQuantity_def exampleReturnSale_def
        exampleReturnLine_def exampleLine_def)

subsection \<open>Lines without a product\<close>

text \<open>
  Claim C10. A line whose product identifier matches no product is passed over by both
  stock loops: the loop of completion and the loop of cancellation give the same result as
  on the lines that have a product, so no stock is checked or changed and no error is
  raised for a line without one. Completion and cancellation of an order that is found
  are therefore what they are on its lines that have a product: completion fails with the
  insufficient-stock error only when one of those lines fails the stock check, and
  otherwise writes the order with status Completed, all its lines kept, and returns it;
  the cancellation of a Completed order restores the stock of those lines and writes the
  order with status Cancelled.
\<close>

theorem missing_product_lines_are_skipped:
  "updateStock ps lines = updateStock ps (filter (\<lambda>line. ps (productId line) \<noteq> None) lines)
   \<and> restoreStock ps lines = restoreStock ps (filter (\<lambda>line. ps (productId line) \<noteq> None) lines)
   \<and> (sales_table db saleId = Some sale \<and> status sale \<noteq> COMPLETED \<longrightarrow>
        completeSale db saleId c n t =
          (case updateStock (products_table db)
                  (filter (\<lambda>line. products_table db (productId line) \<noteq> None) (finalItems sale)) of
             (ps', Some e) \<Rightarrow> (db\<lparr>products_table := ps'\<rparr>, Inl InsufficientStock)
           | (ps', None) \<Rightarrow>
               (db\<lparr>products_table := ps',
                   sales_table := (sales_table db)(saleId \<mapsto>
                     sale\<lparr>status := COMPLETED, cashierId := Some c, cashierName := Some n,
                       finishedAt := Some t, items := finalItems sale,
                       discount := finalDiscount sale\<rparr>)\<rparr>,
                Inr (sale\<lparr>status := COMPLETED, cashierId := Some c, cashierName := Some n,
                       finishedAt := Some t, items := finalItems sale,
                       discount := finalDiscount sale\<rparr>))))
   \<and> (sales_table db saleId = Some sale \<and> status sale = COMPLETED \<longrightarrow>
        cancelSale db saleId =
          (db\<lparr>products_table :=
                restoreStock (products_table db)
                  (filter (\<lambda>line. products_table db (productId line) \<noteq> None) (items sale)),
              sales_table := (sales_table db)(saleId \<mapsto> sale\<lparr>status := CANCELLED\<rparr>)\<rparr>,
           Inr (sale\<lparr>status := CANCELLED\<rparr>)))"
proof (intro conjI impI)
  show "updateStock ps lines = updateStock ps (filter (\<lambda>line. ps (productId line) \<noteq> None) lines)"
    by (rule updateStock_skips_missing)
  show "restoreStock ps lines = restoreStock ps (filter (\<lambda>line. ps (productId line) \<noteq> None) lines)"
    by (rule restoreStock_skips_missing)
next
  let ?present = "filter (\<lambda>line. products_table db (productId line) \<noteq> None) (finalItems sale)"
  assume a: "sales_table db saleId = Some sale \<and> status sale \<noteq> COMPLETED"
  have same: "updateStock (products_table db) (finalItems sale)
                = updateStock (products_table db) ?present"
    by (rule updateStock_skips_missing)
  obtain ps' r where u: "updateStock (products_table db) ?present = (ps', r)"
    by (cases "updateStock (products_table db) ?present")
  show "completeSale db saleId c n t =
          (case updateStock (products_table db) ?present of
             (ps', Some e) \<Rightarrow> (db\<lparr>products_table := ps'\<rparr>, Inl InsufficientStock)
           | (ps', None) \<Rightarrow>
               (db\<lparr>products_table := ps',
                   sales_table := (sales_table db)(saleId \<mapsto>
                     sale\<lparr>status := COMPLETED, cashierId := Some c, cashierName := Some n,
                       finishedAt := Some t, items := finalItems sale,
                       discount := finalDiscount sale\<rparr>)\<rparr>,
                Inr (sale\<lparr>status := COMPLETED, cashierId := Some c, cashierName := Some n,
                       finishedAt := Some t, items := finalItems sale,
                       discount := finalDiscount sale\<rparr>)))"
  proof (cases r)
    case None
    with a same u show ?thesis by (simp add: completeSale_found)
  next
    case (Some e)
    with u have "e = InsufficientStock"
      using updateStock_error[of "products_table db" ?present e] by simp
    with Some a same u show ?thesis by (simp add: completeSale_found)
  qed
next
  assume a: "sales_table db saleId = Some sale \<and> status sale = COMPLETED"
  have same: "restoreStock (products_table db) (items sale)
      = restoreStock (products_table db)
          (filter (\<lambda>line. products_table db (productId line) \<noteq> None) (items sale))"
    by (rule restoreStock_skips_missing)
  from a same show "cancelSale db saleId =
          (db\<lparr>products_table :=
                restoreStock (products_table db)
                  (filter (\<lambda>line. products_table db (productId line) \<noteq> None) (items sale)),
              sales_table := (sales_table db)(saleId \<mapsto> sale\<lparr>status := CANCELLED\<rparr>)\<rparr>,
           Inr (sale\<lparr>status := CANCELLED\<rparr>))"
    by (simp add: cancelSale_found)
qed

theorem missing_product_lines_are_skipped_witness:
  "products_table (exampleOrphanStore PENDING) ''p9'' = None
   \<and> map productId (items (exampleOrphanSale PENDING)) = [''p9'', ''p1'']
   \<and> completeSale (exampleOrphanStore PENDING) ''s1'' ''u2'' ''Bia'' ''2024-05-01T12:00:00.000Z''
       = (\<lparr>sales_table = [''s1'' \<mapsto> (exampleOrphanSale PENDING)\<lparr>status := COMPLETED,
              cashierId := Some ''u2'', cashierName := Some ''Bia'',
              finishedAt := Some ''2024-05-01T12:00:00.000Z''\<rparr>],
           products_table = [''p1'' \<mapsto> exampleProduct\<lparr>stock := 2\<rparr>]\<rparr>,
          Inr ((exampleOrphanSale PENDING)\<lparr>status := COMPLETED,
              cashierId := Some ''u2'', cashierName := Some ''Bia'',
              finishedAt := Some ''2024-05-01T12:00:00.000Z''\<rparr>))
   \<and> cancelSale (exampleOrphanStore COMPLETED) ''s1''
       = (\<lparr>sales_table = [''s1'' \<mapsto> (exampleOrphanSale COMPLETED)\<lparr>status := CANCELLED\<rparr>],
           products_table = [''p1'' \<mapsto> exampleProduct\<lparr>stock := 8\<rparr>]\<rparr>,
          Inr ((exampleOrphanSale COMPLETED)\<lparr>status := CANCELLED\<rparr>))
   \<and> updateStock [''p1'' \<mapsto> exampleProduct] [exampleOrphanLine, exampleLine]
       = updateStock [''p1'' \<mapsto> exampleProduct] [exampleLine]
   \<and> restoreStock [''p1'' \<mapsto> exampleProduct] [exampleOrphanLine, exampleLine]
       = restoreStock [''p1'' \<mapsto> exampleProduct] [exampleLine]"
proof -
  have f: "sales_table (exampleOrphanStore st) ''s1'' = Some (exampleOrphanSale st)"
    and i: "items (exampleOrphanSale st) = [exampleOrphanLine, exampleLine]"
           "finalItems (exampleOrphanSale st) = [exampleOrphanLine, exampleLine]"
           "finalDiscount (exampleOrphanSale st) = 0"
    and s: "status (exampleOrphanSale st) = st"
    and p: "products_table (exampleOrphanStore st) = [''p1'' \<mapsto> exampleProduct]" for st
    by (simp_all add: exampleOrphanStore_def exampleOrphanSale_def exampleSale_def
          finalItems_def finalDiscount_def)
  have k: "filter (\<lambda>line. [''p1'' \<mapsto> exampleProduct] (productId line) \<noteq> None)
             [exampleOrphanLine, exampleLine] = [exampleLine]"
    by (simp add: exampleOrphanLine_def exampleLine_def)
  have u: "updateStock [''p1'' \<mapsto> exampleProduct] [exampleLine]
             = ([''p1'' \<mapsto> exampleProduct\<lparr>stock := 2\<rparr>], None)"
    and r: "restoreStock [''p1'' \<mapsto> exampleProduct] [exampleLine]
             = [''p1'' \<mapsto> exampleProduct\<lparr>stock := 8\<rparr>]"
    by (simp_all add: exampleLine_def exampleProduct_def)
  have m: "products_table (exampleOrphanStore PENDING) ''p9'' = None"
    and ids: "map productId (items (exampleOrphanSale PENDING)) = [''p9'', ''p1'']"
    by (simp_all add: p i exampleOrphanLine_def exampleLine_def)
  have d: "discount (exampleOrphanSale st) = 0" for st
    by (simp add: exampleOrphanSale_def)
  note A = missing_product_lines_are_skipped[where ps = "[''p1'' \<mapsto> exampleProduct]"
      and lines = "[exampleOrphanLine, exampleLine]" and db = "exampleOrphanStore PENDING"
      and saleId = "''s1''" and sale = "exampleOrphanSale PENDING" and c = "''u2''"
      and n = "''Bia''" and t = "''2024-05-01T12:00:00.000Z''"]
  note B = missing_product_lines_are_skipped[where ps = "[''p1'' \<mapsto> exampleProduct]"
      and lines = "[exampleOrphanLine, exampleLine]" and db = "exampleOrphanStore COMPLETED"
      and saleId = "''s1''" and sale = "exampleOrphanSale COMPLETED"]
  from A have "completeSale (exampleOrphanStore PENDING) ''s1'' ''u2'' ''Bia''
      ''2024-05-01T12:00:00.000Z'' =
        ((exampleOrphanStore PENDING)\<lparr>products_table := [''p1'' \<mapsto> exampleProduct\<lparr>stock := 2\<rparr>],
           sales_table := (sales_table (exampleOrphanStore PENDING))(''s1'' \<mapsto>
             (exampleOrphanSale PENDING)\<lparr>status := COMPLETED, cashierId := Some ''u2'',
               cashierName := Some ''Bia'', finishedAt := Some ''2024-05-01T12:00:00.000Z'',
               items := [exampleOrphanLine, exampleLine], discount := 0\<rparr>)\<rparr>,
         Inr ((exampleOrphanSale PENDING)\<lparr>status := COMPLETED, cashierId := Some ''u2'',
               cashierName := Some ''Bia'', finishedAt := Some ''2024-05-01T12:00:00.000Z'',
               items := [exampleOrphanLine, exampleLine], discount := 0\<rparr>))"
    unfolding f i s p k u by simp
  then have a: "completeSale (exampleOrphanStore PENDING) ''s1'' ''u2'' ''Bia''
      ''2024-05-01T12:00:00.000Z''
       = (\<lparr>sales_table = [''s1'' \<mapsto> (exampleOrphanSale PENDING)\<lparr>status := COMPLETED,
              cashierId := Some ''u2'', cashierName := Some ''Bia'',
              finishedAt := Some ''2024-05-01T12:00:00.000Z''\<rparr>],
           products_table = [''p1'' \<mapsto> exampleProduct\<lparr>stock := 2\<rparr>]\<rparr>,
          Inr ((exampleOrphanSale PENDING)\<lparr>status := COMPLETED,
              cashierId := Some ''u2'', cashierName := Some ''Bia'',
              finishedAt := Some ''2024-05-01T12:00:00.000Z''\<rparr>))"
    by (simp add: exampleOrphanStore_def exampleOrphanSale_def exampleSale_def)
  from B have "cancelSale (exampleOrphanStore COMPLETED) ''s1'' =
        ((exampleOrphanStore COMPLETED)\<lparr>products_table := [''p1'' \<mapsto> exampleProduct\<lparr>stock := 8\<rparr>],
           sales_table := (sales_table (exampleOrphanStore COMPLETED))(''s1'' \<mapsto>
             (exampleOrphanSale COMPLETED)\<lparr>status := CANCELLED\<rparr>)\<rparr>,
         Inr ((exampleOrphanSale COMPLETED)\<lparr>status := CANCELLED\<rparr>))"
    unfolding f i s p k r by simp
  then have b: "cancelSale (exampleOrphanStore COMPLETED) ''s1''
       = (\<lparr>sales_table = [''s1'' \<mapsto> (exampleOrphanSale COMPLETED)\<lparr>status := CANCELLED\<rparr>],
           products_table = [''p1'' \<mapsto> exampleProduct\<lparr>stock := 8\<rparr>]\<rparr>,
          Inr ((exampleOrphanSale COMPLETED)\<lparr>status := CANCELLED\<rparr>))"
    by (simp add: exampleOrphanStore_def)
  from A have c: "updateStock [''p1'' \<mapsto> exampleProduct] [exampleOrphanLine, exampleLine]
       = updateStock [''p1'' \<mapsto> exampleProduct] [exampleLine]
     \<and> restoreStock [''p1'' \<mapsto> exampleProduct] [exampleOrphanLine, exampleLine]
       = restoreStock [''p1'' \<mapsto> exampleProduct] [exampleLine]"
    unfolding k by blast
  from m ids a b c show ?thesis by blast
qed

end
